theory Spec2Isabelle
  imports Main "HOL-Library.Sublist"
begin

section \<open>Data model\<close>

text \<open>
  The record types \<open>Talent\<close> and \<open>Profile\<close> are imported by the components from
  \<^verbatim>\<open>../lib/supabase\<close>; the fields below are the ones the components read or write.
  Identifiers and text are strings, the creation time is a number (the store orders by it),
  and \<open>tags\<close>, \<open>full_name\<close> and \<open>email\<close> may be null (the code reads them with \<^verbatim>\<open>?.\<close>).
\<close>

record Profile =
  p_id :: string
  full_name :: "string option"
  email :: "string option"
  role :: string
  department :: "string option"
  year :: "string option"
  p_created_at :: nat

record Talent =
  t_id :: string
  user_id :: string
  title :: string
  description :: string
  category :: string
  media_url :: string
  media_type :: string
  tags :: "string list option"
  created_at :: nat
  likes_count :: nat

text \<open>
  \<^verbatim>\<open>type TalentWithProfile = Omit<Talent, 'profile'> & { profile: Profile | null }\<close>, together with
  the \<^verbatim>\<open>is_liked\<close> flag that \<^verbatim>\<open>fetchTalents\<close> adds to every row.
\<close>

record TalentWithProfile = Talent +
  profile :: "Profile option"
  is_liked :: bool

text \<open>
  The rows of \<^verbatim>\<open>select('id, full_name, email')\<close> on the profiles, and the views the admin
  pages build from them (\<^verbatim>\<open>AdminTalentShowcase.tsx\<close>, \<^verbatim>\<open>AdminHostelServices\<close>).
\<close>

record ProfileBrief =
  pb_id :: string
  pb_full_name :: "string option"
  pb_email :: "string option"

record AdminTalent = Talent +
  a_profile :: "ProfileBrief option"

text \<open>
  \<^verbatim>\<open>interface HostelServiceWithProfile\<close> of \<^verbatim>\<open>AdminHostelServices\<close>: the stored row, to which
  the page adds \<^verbatim>\<open>profiles\<close>. \<^verbatim>\<open>updated_at\<close> is the column \<^verbatim>\<open>handleStatusChange\<close> writes.
\<close>

record HostelService =
  s_id :: string
  s_created_at :: nat
  service_type :: string
  room_number :: string
  hostel_block :: string
  status :: string
  priority :: string
  s_description :: string
  s_user_id :: string
  updated_at :: nat

record HostelServiceWithProfile = HostelService +
  profiles :: "ProfileBrief option"

text \<open>A browser \<^verbatim>\<open>File\<close>, and the row \<^verbatim>\<open>handleSubmit\<close> inserts into \<^verbatim>\<open>talents\<close>.\<close>

record File =
  f_name :: string
  f_size :: nat
  f_type :: string

record NewTalent =
  nt_user_id :: string
  nt_title :: string
  nt_description :: string
  nt_category :: string
  nt_media_url :: string
  nt_media_type :: string
  nt_tags :: "string list"

section \<open>JavaScript string and array primitives\<close>

text \<open>
  \<^verbatim>\<open>String.prototype.toLowerCase\<close> is the case conversion of the JavaScript runtime. Its
  mapping table is not part of the component sources, so the definitions that lower a
  string take the conversion as their parameter \<open>toLowerCase\<close>, a function from strings
  to strings, and the theorems hold for every such function.
\<close>

text \<open>\<^verbatim>\<open>s.startsWith(q)\<close>, by recursion on both strings.\<close>

fun startsWith :: "string \<Rightarrow> string \<Rightarrow> bool" where
  "startsWith s [] = True"
| "startsWith [] (c # q) = False"
| "startsWith (d # s) (c # q) = (d = c \<and> startsWith s q)"

text \<open>\<^verbatim>\<open>s.includes(q)\<close> (\<open>includes\<close> is an Isabelle keyword): \<open>q\<close> occurs in \<open>s\<close> at some offset.\<close>

fun str_includes :: "string \<Rightarrow> string \<Rightarrow> bool" where
  "str_includes [] q = (q = [])"
| "str_includes (c # s) q = (startsWith (c # s) q \<or> str_includes s q)"

text \<open>\<^verbatim>\<open>xs.some(p)\<close>.\<close>

fun some :: "('a \<Rightarrow> bool) \<Rightarrow> 'a list \<Rightarrow> bool" where
  "some p [] = False"
| "some p (x # xs) = (p x \<or> some p xs)"

text \<open>\<^verbatim>\<open>s.split(sep)\<close> for a one-character separator; the result is never empty.\<close>

fun split :: "char \<Rightarrow> string \<Rightarrow> string list" where
  "split sep [] = [[]]"
| "split sep (c # s) =
     (if c = sep then [] # split sep s
      else (case split sep s of [] \<Rightarrow> [[c]] | x # xs \<Rightarrow> (c # x) # xs))"

text \<open>\<^verbatim>\<open>xs.pop()\<close> read as a value: the last element, \<^verbatim>\<open>undefined\<close> for the empty array.\<close>

definition pop :: "'a list \<Rightarrow> 'a option" where
  "pop xs = (case rev xs of [] \<Rightarrow> None | x # _ \<Rightarrow> Some x)"

text \<open>
  The characters \<^verbatim>\<open>s.trim()\<close> removes at both ends, white space and line terminators:
  among the characters of \<open>string\<close> these are 0x09 to 0x0D, the space and the no-break
  space 0xA0.
\<close>

definition is_space :: "char \<Rightarrow> bool" where
  "is_space c =
     (c \<in> set [CHR 0x09, CHR 0x0A, CHR 0x0B, CHR 0x0C, CHR 0x0D, CHR '' '', CHR 0xA0])"

text \<open>\<^verbatim>\<open>s.trim()\<close>.\<close>

definition trim :: "string \<Rightarrow> string" where
  "trim s = rev (dropWhile is_space (rev (dropWhile is_space s)))"

text \<open>A number inside a template literal: its decimal digits.\<close>

fun show_nat :: "nat \<Rightarrow> string" where
  "show_nat n =
     (if n < 10 then [''0123456789'' ! n]
      else show_nat (n div 10) @ [''0123456789'' ! (n mod 10)])"

text \<open>\<^verbatim>\<open>[...new Set(xs)]\<close>: the distinct elements, each at its first occurrence.\<close>

definition uniq :: "'a list \<Rightarrow> 'a list" where
  "uniq xs = rev (remdups (rev xs))"

text \<open>\<^verbatim>\<open>new Map(entries)\<close>: a later entry replaces an earlier one with the same key.\<close>

definition Map_new :: "('k \<times> 'v) list \<Rightarrow> ('k \<rightharpoonup> 'v)" where
  "Map_new entries = map_of (rev entries)"

section \<open>The record store\<close>

text \<open>
  The store client answers every awaited request with an object \<^verbatim>\<open>{ data, error }\<close>; the
  components destructure it and test \<^verbatim>\<open>error\<close> themselves. An awaited request may also
  reject, which the surrounding \<^verbatim>\<open>try\<close> catches.
\<close>

record 'a response =
  data :: "'a option"
  error :: "string option"

datatype 'a awaited = Resolved "'a response" | Rejected string

datatype outcome = Ok | Failed string | Thrown string

datatype sortkey = By_created_at | By_likes_count

text \<open>The requests the components send, as the store sees them.\<close>

datatype call =
    SelectTalents sortkey
  | SelectProfilesIn "string list"
  | SelectProfilesBriefIn "string list"
  | SelectLikes string
  | DeleteLike string string
  | InsertLike string string
  | DeleteTalent string
  | SelectProfiles
  | UpdateRole string string
  | SelectServices
  | UpdateStatus string string nat
  | StorageUpload string File
  | InsertTalent NewTalent

text \<open>
  Modelled from the spec: the Record Store Client (section 6) is an external collaborator
  whose code is not part of the component sources. A table is the list of its rows; a request is logged in
  \<open>calls\<close>, then fails as \<open>faults\<close> says for it or takes effect. The reaction
  bookkeeping keeps \<open>likes_count\<close> of an item equal to the number of its reaction records
  (the denormalised count is store-derived, section 3). \<open>server_clock\<close> is the store's own
  time, \<open>new_id\<close> the identifiers it gives to inserted rows, \<open>public_url\<close> the URL of a
  path in the media bucket.
\<close>

record db =
  talents_tbl :: "Talent list"
  profiles_tbl :: "Profile list"
  likes_tbl :: "(string \<times> string) list"
  services_tbl :: "HostelService list"
  media_objects :: "(string \<times> File) list"
  public_url :: "string \<Rightarrow> string"
  new_id :: "nat \<Rightarrow> string"
  server_clock :: nat
  faults :: "call \<Rightarrow> outcome"
  calls :: "call list"

text \<open>
  Modelled from the spec: one request to the store (section 6). It is logged, then it
  rejects, answers with an error, or answers with \<open>result\<close> and takes \<open>effect\<close>.
\<close>

definition request :: "call \<Rightarrow> (db \<Rightarrow> 'a option) \<Rightarrow> (db \<Rightarrow> db) \<Rightarrow> db \<Rightarrow> 'a awaited \<times> db" where
  "request c result effect d =
     (let d1 = d\<lparr>calls := calls d @ [c]\<rparr> in
      case faults d c of
        Thrown e \<Rightarrow> (Rejected e, d1)
      | Failed e \<Rightarrow> (Resolved \<lparr>data = None, error = Some e\<rparr>, d1)
      | Ok \<Rightarrow> (Resolved \<lparr>data = result d1, error = None\<rparr>, effect d1))"

definition column :: "sortkey \<Rightarrow> Talent \<Rightarrow> nat" where
  "column k = (case k of By_created_at \<Rightarrow> created_at | By_likes_count \<Rightarrow> likes_count)"

text \<open>\<^verbatim>\<open>.order(col, { ascending: false })\<close>.\<close>

definition order_desc :: "('a \<Rightarrow> nat) \<Rightarrow> 'a list \<Rightarrow> 'a list" where
  "order_desc key rows = rev (sort_key key rows)"

definition select_talents :: "sortkey \<Rightarrow> db \<Rightarrow> Talent list awaited \<times> db" where
  "select_talents k =
     request (SelectTalents k) (\<lambda>d. Some (order_desc (column k) (talents_tbl d))) (\<lambda>d. d)"

definition select_profiles_in :: "string list \<Rightarrow> db \<Rightarrow> Profile list awaited \<times> db" where
  "select_profiles_in ids =
     request (SelectProfilesIn ids)
       (\<lambda>d. Some (filter (\<lambda>p. p_id p \<in> set ids) (profiles_tbl d))) (\<lambda>d. d)"

text \<open>\<^verbatim>\<open>from('talent_likes').select('talent_id').eq('user_id', uid)\<close>.\<close>

definition select_likes :: "string \<Rightarrow> db \<Rightarrow> string list awaited \<times> db" where
  "select_likes uid =
     request (SelectLikes uid)
       (\<lambda>d. Some (map fst (filter (\<lambda>l. snd l = uid) (likes_tbl d)))) (\<lambda>d. d)"

text \<open>
  Modelled from the spec: the reaction bookkeeping of the store (section 3: the like count
  is derived, maintained by the store and read-only for the components) is not part of
  the component sources. After every insert or delete of a reaction record the count of the item is the
  number of its reaction records.
\<close>

definition recount :: "string \<Rightarrow> db \<Rightarrow> db" where
  "recount tid d =
     d\<lparr>talents_tbl :=
         map (\<lambda>t. if t_id t = tid
                  then t\<lparr>likes_count := length (filter (\<lambda>l. fst l = tid) (likes_tbl d))\<rparr>
                  else t)
             (talents_tbl d)\<rparr>"

definition insert_like :: "string \<Rightarrow> string \<Rightarrow> db \<Rightarrow> unit awaited \<times> db" where
  "insert_like tid uid =
     request (InsertLike tid uid) (\<lambda>d. None)
       (\<lambda>d. recount tid (d\<lparr>likes_tbl := likes_tbl d @ [(tid, uid)]\<rparr>))"

text \<open>\<^verbatim>\<open>.delete().match({ talent_id, user_id })\<close> removes every row with that pair.\<close>

definition delete_like :: "string \<Rightarrow> string \<Rightarrow> db \<Rightarrow> unit awaited \<times> db" where
  "delete_like tid uid =
     request (DeleteLike tid uid) (\<lambda>d. None)
       (\<lambda>d. recount tid (d\<lparr>likes_tbl := filter (\<lambda>l. l \<noteq> (tid, uid)) (likes_tbl d)\<rparr>))"

definition brief :: "Profile \<Rightarrow> ProfileBrief" where
  "brief p = \<lparr>pb_id = p_id p, pb_full_name = full_name p, pb_email = email p\<rparr>"

definition select_profiles_brief_in :: "string list \<Rightarrow> db \<Rightarrow> ProfileBrief list awaited \<times> db" where
  "select_profiles_brief_in ids =
     request (SelectProfilesBriefIn ids)
       (\<lambda>d. Some (map brief (filter (\<lambda>p. p_id p \<in> set ids) (profiles_tbl d)))) (\<lambda>d. d)"

definition delete_talent :: "string \<Rightarrow> db \<Rightarrow> unit awaited \<times> db" where
  "delete_talent tid =
     request (DeleteTalent tid) (\<lambda>d. None)
       (\<lambda>d. d\<lparr>talents_tbl := filter (\<lambda>t. t_id t \<noteq> tid) (talents_tbl d)\<rparr>)"



definition select_services :: "db \<Rightarrow> HostelService list awaited \<times> db" where
  "select_services =
     request SelectServices (\<lambda>d. Some (order_desc s_created_at (services_tbl d))) (\<lambda>d. d)"

text \<open>
  \<^verbatim>\<open>from('hostel_services').update({ status, updated_at }).eq('id', serviceId)\<close>: both columns
  take the values of the request.
\<close>

definition update_status :: "string \<Rightarrow> string \<Rightarrow> nat \<Rightarrow> db \<Rightarrow> unit awaited \<times> db" where
  "update_status serviceId newStatus stamp =
     request (UpdateStatus serviceId newStatus stamp) (\<lambda>d. None)
       (\<lambda>d. d\<lparr>services_tbl :=
                map (\<lambda>s. if s_id s = serviceId
                         then s\<lparr>status := newStatus, updated_at := stamp\<rparr> else s)
                    (services_tbl d)\<rparr>)"

definition storage_upload :: "string \<Rightarrow> File \<Rightarrow> db \<Rightarrow> unit awaited \<times> db" where
  "storage_upload path file =
     request (StorageUpload path file) (\<lambda>d. None)
       (\<lambda>d. d\<lparr>media_objects := media_objects d @ [(path, file)]\<rparr>)"

definition insert_talent :: "NewTalent \<Rightarrow> db \<Rightarrow> unit awaited \<times> db" where
  "insert_talent row =
     request (InsertTalent row) (\<lambda>d. None)
       (\<lambda>d. d\<lparr>talents_tbl := talents_tbl d @
                [\<lparr>t_id = new_id d (length (talents_tbl d)), user_id = nt_user_id row,
                  title = nt_title row, description = nt_description row,
                  category = nt_category row, media_url = nt_media_url row,
                  media_type = nt_media_type row, tags = Some (nt_tags row),
                  created_at = server_clock d, likes_count = 0\<rparr>]\<rparr>)"

section \<open>The page: store, component state, console and alerts\<close>

record 'ui world =
  store :: db
  ui :: 'ui
  console :: "string list"
  alerts :: "string list"

definition console_error :: "string \<Rightarrow> string \<Rightarrow> 'ui world \<Rightarrow> 'ui world" where
  "console_error msg e w = w\<lparr>console := console w @ [msg @ '' '' @ e]\<rparr>"

definition alert :: "string \<Rightarrow> 'ui world \<Rightarrow> 'ui world" where
  "alert msg w = w\<lparr>alerts := alerts w @ [msg]\<rparr>"

text \<open>The authenticated user of \<^verbatim>\<open>useAuth()\<close>, null when nobody is signed in.\<close>

record User =
  u_id :: string

section \<open>TalentShowcase: aggregation and like toggle\<close>

text \<open>
  The state of \<^verbatim>\<open>UploadTalentModal\<close> and of the \<^verbatim>\<open>TalentShowcase\<close> page that mounts it with
  \<^verbatim>\<open>onSuccess = fetchTalents\<close> and \<^verbatim>\<open>onClose = () => setShowUploadModal(false)\<close> (line 409).
\<close>

record FormData =
  fd_title :: string
  fd_description :: string
  fd_category :: string
  fd_tags :: string

record upload_modal =
  uploading :: bool
  formData :: FormData
  mediaFile :: "File option"
  fileError :: string

record showcase =
  talents :: "TalentWithProfile list"
  loading :: bool
  searchQuery :: string
  sortBy :: sortkey
  showUploadModal :: bool
  modal :: upload_modal

definition setTalents :: "TalentWithProfile list \<Rightarrow> showcase world \<Rightarrow> showcase world" where
  "setTalents ts w = w\<lparr>ui := (ui w)\<lparr>talents := ts\<rparr>\<rparr>"

definition setLoading :: "bool \<Rightarrow> showcase world \<Rightarrow> showcase world" where
  "setLoading b w = w\<lparr>ui := (ui w)\<lparr>loading := b\<rparr>\<rparr>"

text \<open>Line 302: \<^verbatim>\<open>{...t, profile: null, is_liked: false}\<close>.\<close>

definition withNullProfile :: "Talent \<Rightarrow> TalentWithProfile" where
  "withNullProfile t = Talent.extend t (TalentWithProfile.fields None False)"

text \<open>
  Lines 302-318, the join with the profiles. \<open>Inl\<close> is a thrown error. Reading
  \<^verbatim>\<open>profilesData.map\<close> on a null \<^verbatim>\<open>data\<close> throws a TypeError.
\<close>

definition resolveProfiles ::
  "Talent list \<Rightarrow> db \<Rightarrow> (string + TalentWithProfile list) \<times> db" where
  "resolveProfiles talentsData d =
     (let processedTalents = map withNullProfile talentsData;
          userIds = uniq (map user_id talentsData)
      in if length userIds > 0 then
           (case select_profiles_in userIds d of
              (Rejected e, d1) \<Rightarrow> (Inl e, d1)
            | (Resolved r, d1) \<Rightarrow>
                (case error r of
                   Some profilesError \<Rightarrow> (Inl profilesError, d1)
                 | None \<Rightarrow>
                     (case data r of
                        None \<Rightarrow> (Inl ''TypeError'', d1)
                      | Some profilesData \<Rightarrow>
                          (let profilesMap = Map_new (map (\<lambda>p. (p_id p, p)) profilesData)
                           in (Inr (map (\<lambda>talent. talent\<lparr>profile := profilesMap (user_id talent)\<rparr>)
                                        processedTalents), d1)))))
         else (Inr processedTalents, d))"

text \<open>
  Lines 320-327, the viewer's likes. The \<^verbatim>\<open>error\<close> of the answer is not read, and
  \<^verbatim>\<open>likesData?.map(...) || []\<close> is the empty list when \<^verbatim>\<open>data\<close> is null.
\<close>

definition annotateLikes ::
  "User option \<Rightarrow> TalentWithProfile list \<Rightarrow> db \<Rightarrow> (string + TalentWithProfile list) \<times> db" where
  "annotateLikes user processedTalents d =
     (case user of
        None \<Rightarrow> (Inr processedTalents, d)
      | Some u \<Rightarrow>
          (case select_likes (u_id u) d of
             (Rejected e, d1) \<Rightarrow> (Inl e, d1)
           | (Resolved r, d1) \<Rightarrow>
               (let likedIds = (case data r of None \<Rightarrow> [] | Some likesData \<Rightarrow> likesData)
                in (Inr (map (\<lambda>talent. talent\<lparr>is_liked := (t_id talent \<in> set likedIds)\<rparr>)
                             processedTalents), d1))))"

text \<open>The \<^verbatim>\<open>try\<close> block of \<^verbatim>\<open>fetchTalents\<close> (lines 290-329); \<open>Some e\<close> is the error thrown.\<close>

definition tryFetchTalents :: "User option \<Rightarrow> showcase world \<Rightarrow> string option \<times> showcase world" where
  "tryFetchTalents user w =
     (case select_talents (sortBy (ui w)) (store w) of
        (Rejected e, d1) \<Rightarrow> (Some e, w\<lparr>store := d1\<rparr>)
      | (Resolved r, d1) \<Rightarrow>
          (case error r of
             Some talentsError \<Rightarrow> (Some talentsError, w\<lparr>store := d1\<rparr>)
           | None \<Rightarrow>
               (case data r of
                  None \<Rightarrow> (None, setTalents [] (w\<lparr>store := d1\<rparr>))
                | Some talentsData \<Rightarrow>
                    (case resolveProfiles talentsData d1 of
                       (Inl e, d2) \<Rightarrow> (Some e, w\<lparr>store := d2\<rparr>)
                     | (Inr joined, d2) \<Rightarrow>
                         (case annotateLikes user joined d2 of
                            (Inl e, d3) \<Rightarrow> (Some e, w\<lparr>store := d3\<rparr>)
                          | (Inr processedTalents, d3) \<Rightarrow>
                              (None, setTalents processedTalents (w\<lparr>store := d3\<rparr>)))))))"

text \<open>Lines 288-336: \<^verbatim>\<open>catch\<close> logs the error, \<^verbatim>\<open>finally\<close> clears the loading flag.\<close>

definition fetchTalents :: "User option \<Rightarrow> showcase world \<Rightarrow> showcase world" where
  "fetchTalents user w =
     (case tryFetchTalents user (setLoading True w) of
        (None, w1) \<Rightarrow> setLoading False w1
      | (Some e, w1) \<Rightarrow> setLoading False (console_error ''Error fetching talents:'' e w1))"

text \<open>
  Lines 338-357. The answer of the awaited write is dropped, so only a rejected request
  reaches \<^verbatim>\<open>catch\<close>; every resolved one is followed by \<^verbatim>\<open>fetchTalents()\<close>.
\<close>

definition handleLike :: "User option \<Rightarrow> string \<Rightarrow> showcase world \<Rightarrow> showcase world" where
  "handleLike user talentId w =
     (case user of
        None \<Rightarrow> alert ''You must be logged in to like a post.'' w
      | Some u \<Rightarrow>
          (case find (\<lambda>t. t_id t = talentId) (talents (ui w)) of
             None \<Rightarrow> w
           | Some talent \<Rightarrow>
               (case (if is_liked talent
                      then delete_like talentId (u_id u) (store w)
                      else insert_like talentId (u_id u) (store w)) of
                  (Rejected e, d1) \<Rightarrow> console_error ''Error liking talent:'' e (w\<lparr>store := d1\<rparr>)
                | (Resolved r, d1) \<Rightarrow> fetchTalents user (w\<lparr>store := d1\<rparr>))))"

subsection \<open>Client-side search filter\<close>

text \<open>
  Lines 359-364 of \<^verbatim>\<open>TalentShowcase.tsx\<close>, applied to the \<open>searchQuery\<close> and the
  \<open>talents\<close> of the page state. \<^verbatim>\<open>talent.tags?.some(...)\<close> is \<^verbatim>\<open>undefined\<close>, hence
  falsy, when \<open>tags\<close> is null.
\<close>

definition matchesQuery :: "(string \<Rightarrow> string) \<Rightarrow> string \<Rightarrow> TalentWithProfile \<Rightarrow> bool" where
  "matchesQuery toLowerCase query talent =
     (str_includes (toLowerCase (title talent)) (toLowerCase query) \<or>
      str_includes (toLowerCase (description talent)) (toLowerCase query) \<or>
      (case tags talent of
         None \<Rightarrow> False
       | Some ts \<Rightarrow> some (\<lambda>tag. str_includes (toLowerCase tag) (toLowerCase query)) ts))"

definition filteredTalents ::
  "(string \<Rightarrow> string) \<Rightarrow> string \<Rightarrow> TalentWithProfile list \<Rightarrow> TalentWithProfile list" where
  "filteredTalents toLowerCase query ts = filter (matchesQuery toLowerCase query) ts"

text \<open>
  A case-insensitive substring: after lowering both strings, the query occurs somewhere
  inside the text.
\<close>

definition ci_substring :: "(string \<Rightarrow> string) \<Rightarrow> string \<Rightarrow> string \<Rightarrow> bool" where
  "ci_substring toLowerCase q s =
     (\<exists>before after. toLowerCase s = before @ toLowerCase q @ after)"

section \<open>UploadTalentModal\<close>

definition setFileError :: "string \<Rightarrow> showcase world \<Rightarrow> showcase world" where
  "setFileError msg w = w\<lparr>ui := (ui w)\<lparr>modal := (modal (ui w))\<lparr>fileError := msg\<rparr>\<rparr>\<rparr>"

definition setMediaFile :: "File \<Rightarrow> showcase world \<Rightarrow> showcase world" where
  "setMediaFile f w = w\<lparr>ui := (ui w)\<lparr>modal := (modal (ui w))\<lparr>mediaFile := Some f\<rparr>\<rparr>\<rparr>"

definition setUploading :: "bool \<Rightarrow> showcase world \<Rightarrow> showcase world" where
  "setUploading b w = w\<lparr>ui := (ui w)\<lparr>modal := (modal (ui w))\<lparr>uploading := b\<rparr>\<rparr>\<rparr>"

definition setShowUploadModal :: "bool \<Rightarrow> showcase world \<Rightarrow> showcase world" where
  "setShowUploadModal b w = w\<lparr>ui := (ui w)\<lparr>showUploadModal := b\<rparr>\<rparr>"

text \<open>The ceiling of line 128, \<^verbatim>\<open>10 * 1024 * 1024\<close> bytes.\<close>

definition max_file_size :: nat where
  "max_file_size = 10 * 1024 * 1024"

text \<open>Lines 125-135; \<open>files\<close> is \<^verbatim>\<open>e.target.files\<close>, null or a list.\<close>

definition handleFileChange :: "File list option \<Rightarrow> showcase world \<Rightarrow> showcase world" where
  "handleFileChange files w =
     (case files of
        None \<Rightarrow> w
      | Some [] \<Rightarrow> w
      | Some (file # rest) \<Rightarrow>
          if f_size file > max_file_size
          then setFileError ''File is too large. Please select a file smaller than 10MB.'' w
          else setMediaFile file (setFileError [] w))"

text \<open>Line 156.\<close>

definition mediaTypeOf :: "File \<Rightarrow> string" where
  "mediaTypeOf file = (if startsWith (f_type file) ''video'' then ''video'' else ''image'')"

text \<open>Line 147-148; \<open>now\<close> is \<^verbatim>\<open>Date.now()\<close>.\<close>

definition filePathOf :: "User \<Rightarrow> nat \<Rightarrow> File \<Rightarrow> string" where
  "filePathOf user now file =
     u_id user @ ''-'' @ show_nat now @ ''.'' @
       (case pop (split CHR ''.'' (f_name file)) of None \<Rightarrow> ''undefined'' | Some fileExt \<Rightarrow> fileExt)"

text \<open>Lines 158-166, the inserted row.\<close>

definition newTalentOf :: "User \<Rightarrow> FormData \<Rightarrow> string \<Rightarrow> string \<Rightarrow> NewTalent" where
  "newTalentOf user fd publicUrl mediaType =
     \<lparr>nt_user_id = u_id user, nt_title = fd_title fd, nt_description = fd_description fd,
      nt_category = fd_category fd, nt_media_url = publicUrl, nt_media_type = mediaType,
      nt_tags = filter (\<lambda>tag. tag \<noteq> []) (map trim (split CHR '','' (fd_tags fd)))\<rparr>"

text \<open>The \<^verbatim>\<open>try\<close> block of \<^verbatim>\<open>handleSubmit\<close> (lines 146-170).\<close>

definition trySubmit ::
  "User \<Rightarrow> File \<Rightarrow> nat \<Rightarrow> showcase world \<Rightarrow> string option \<times> showcase world" where
  "trySubmit user file now w =
     (let filePath = filePathOf user now file in
      case storage_upload filePath file (store w) of
        (Rejected e, d1) \<Rightarrow> (Some e, w\<lparr>store := d1\<rparr>)
      | (Resolved r, d1) \<Rightarrow>
          (case error r of
             Some uploadError \<Rightarrow> (Some uploadError, w\<lparr>store := d1\<rparr>)
           | None \<Rightarrow>
               (let publicUrl = public_url d1 filePath in
                if publicUrl = [] then
                  (Some ''Could not get public URL for the media.'', w\<lparr>store := d1\<rparr>)
                else
                  (case insert_talent
                          (newTalentOf user (formData (modal (ui w))) publicUrl (mediaTypeOf file)) d1 of
                     (Rejected e, d2) \<Rightarrow> (Some e, w\<lparr>store := d2\<rparr>)
                   | (Resolved r2, d2) \<Rightarrow>
                       (case error r2 of
                          Some insertError \<Rightarrow> (Some insertError, w\<lparr>store := d2\<rparr>)
                        | None \<Rightarrow>
                            (None, setShowUploadModal False
                                     (fetchTalents (Some user) (w\<lparr>store := d2\<rparr>))))))))"

text \<open>Lines 137-177.\<close>

definition handleSubmit :: "User option \<Rightarrow> nat \<Rightarrow> showcase world \<Rightarrow> showcase world" where
  "handleSubmit user now w =
     (case user of
        None \<Rightarrow> setFileError ''Please select a media file to upload.'' w
      | Some u \<Rightarrow>
          (case mediaFile (modal (ui w)) of
             None \<Rightarrow> setFileError ''Please select a media file to upload.'' w
           | Some file \<Rightarrow>
               (case trySubmit u file now (setFileError [] (setUploading True w)) of
                  (None, w1) \<Rightarrow> setUploading False w1
                | (Some e, w1) \<Rightarrow>
                    setUploading False
                      (alert (''Error uploading talent: '' @ e)
                         (console_error ''Error uploading talent:'' e w1)))))"

section \<open>AdminTalentShowcase\<close>

record admin_talents =
  at_talents :: "AdminTalent list"
  at_loading :: bool
  at_error :: string

definition at_setTalents :: "AdminTalent list \<Rightarrow> admin_talents world \<Rightarrow> admin_talents world" where
  "at_setTalents ts w = w\<lparr>ui := (ui w)\<lparr>at_talents := ts\<rparr>\<rparr>"

definition at_setLoading :: "bool \<Rightarrow> admin_talents world \<Rightarrow> admin_talents world" where
  "at_setLoading b w = w\<lparr>ui := (ui w)\<lparr>at_loading := b\<rparr>\<rparr>"

definition at_setError :: "string \<Rightarrow> admin_talents world \<Rightarrow> admin_talents world" where
  "at_setError msg w = w\<lparr>ui := (ui w)\<lparr>at_error := msg\<rparr>\<rparr>"

text \<open>Line 39 and line 51: \<^verbatim>\<open>{...t, profile: ...}\<close>.\<close>

definition withProfile :: "ProfileBrief option \<Rightarrow> Talent \<Rightarrow> AdminTalent" where
  "withProfile p t = Talent.extend t (AdminTalent.fields p)"

text \<open>
  Lines 32-54 of \<^verbatim>\<open>fetchAllTalents\<close>, from the rows of the primary query to the list given
  to \<^verbatim>\<open>setTalents\<close>; \<open>Inl\<close> is a thrown error.
\<close>

definition joinAllTalents :: "Talent list \<Rightarrow> db \<Rightarrow> (string + AdminTalent list) \<times> db" where
  "joinAllTalents talentsData d =
     (if length talentsData = 0 then (Inr [], d)
      else
        (let userIds = uniq (map user_id talentsData) in
         if length userIds = 0 then (Inr (map (withProfile None) talentsData), d)
         else
           (case select_profiles_brief_in userIds d of
              (Rejected e, d1) \<Rightarrow> (Inl e, d1)
            | (Resolved r, d1) \<Rightarrow>
                (case error r of
                   Some profilesError \<Rightarrow> (Inl profilesError, d1)
                 | None \<Rightarrow>
                     (case data r of
                        None \<Rightarrow> (Inl ''TypeError'', d1)
                      | Some profilesData \<Rightarrow>
                          (let profilesMap = Map_new (map (\<lambda>p. (pb_id p, p)) profilesData)
                           in (Inr (map (\<lambda>talent. withProfile (profilesMap (user_id talent)) talent)
                                        talentsData), d1)))))))"

definition tryFetchAllTalents :: "admin_talents world \<Rightarrow> string option \<times> admin_talents world" where
  "tryFetchAllTalents w =
     (case select_talents By_created_at (store w) of
        (Rejected e, d1) \<Rightarrow> (Some e, w\<lparr>store := d1\<rparr>)
      | (Resolved r, d1) \<Rightarrow>
          (case error r of
             Some talentsError \<Rightarrow> (Some talentsError, w\<lparr>store := d1\<rparr>)
           | None \<Rightarrow>
               (case joinAllTalents (case data r of None \<Rightarrow> [] | Some rows \<Rightarrow> rows) d1 of
                  (Inl e, d2) \<Rightarrow> (Some e, w\<lparr>store := d2\<rparr>)
                | (Inr talentsWithProfiles, d2) \<Rightarrow>
                    (None, at_setTalents talentsWithProfiles (w\<lparr>store := d2\<rparr>)))))"

text \<open>Lines 21-64.\<close>

definition fetchAllTalents :: "admin_talents world \<Rightarrow> admin_talents world" where
  "fetchAllTalents w =
     (case tryFetchAllTalents (at_setError [] (at_setLoading True w)) of
        (None, w1) \<Rightarrow> at_setLoading False w1
      | (Some e, w1) \<Rightarrow>
          at_setLoading False
            (at_setError ''Failed to fetch talents. Please check the console.''
               (console_error ''Error fetching talents:'' e w1)))"

text \<open>Lines 66-81; \<open>confirmed\<close> is the answer of \<^verbatim>\<open>window.confirm\<close>.\<close>

definition handleDelete :: "bool \<Rightarrow> string \<Rightarrow> admin_talents world \<Rightarrow> admin_talents world" where
  "handleDelete confirmed talentId w =
     (if confirmed then
        (case delete_talent talentId (store w) of
           (Rejected e, d1) \<Rightarrow>
             alert (''Failed to delete talent: '' @ e)
               (console_error ''Error deleting talent:'' e (w\<lparr>store := d1\<rparr>))
         | (Resolved r, d1) \<Rightarrow>
             (case error r of
                Some e \<Rightarrow>
                  alert (''Failed to delete talent: '' @ e)
                    (console_error ''Error deleting talent:'' e (w\<lparr>store := d1\<rparr>))
              | None \<Rightarrow> fetchAllTalents (w\<lparr>store := d1\<rparr>)))
      else w)"

section \<open>AdminUserManagement\<close>










section \<open>AdminHostelServices\<close>

record hostel_services =
  hs_services :: "HostelServiceWithProfile list"
  hs_loading :: bool
  hs_error :: string

definition hs_setServices ::
  "HostelServiceWithProfile list \<Rightarrow> hostel_services world \<Rightarrow> hostel_services world" where
  "hs_setServices xs w = w\<lparr>ui := (ui w)\<lparr>hs_services := xs\<rparr>\<rparr>"

definition hs_setLoading :: "bool \<Rightarrow> hostel_services world \<Rightarrow> hostel_services world" where
  "hs_setLoading b w = w\<lparr>ui := (ui w)\<lparr>hs_loading := b\<rparr>\<rparr>"

definition hs_setError :: "string \<Rightarrow> hostel_services world \<Rightarrow> hostel_services world" where
  "hs_setError msg w = w\<lparr>ui := (ui w)\<lparr>hs_error := msg\<rparr>\<rparr>"

definition withProfiles :: "ProfileBrief option \<Rightarrow> HostelService \<Rightarrow> HostelServiceWithProfile" where
  "withProfiles p s = HostelService.extend s (HostelServiceWithProfile.fields p)"

text \<open>The \<^verbatim>\<open>try\<close> block of \<^verbatim>\<open>fetchAllServices\<close> (lines 46-76).\<close>

definition tryFetchAllServices :: "hostel_services world \<Rightarrow> string option \<times> hostel_services world" where
  "tryFetchAllServices w =
     (case select_services (store w) of
        (Rejected e, d1) \<Rightarrow> (Some e, w\<lparr>store := d1\<rparr>)
      | (Resolved r, d1) \<Rightarrow>
          (case error r of
             Some servicesError \<Rightarrow> (Some servicesError, w\<lparr>store := d1\<rparr>)
           | None \<Rightarrow>
               (let servicesData = (case data r of None \<Rightarrow> [] | Some rows \<Rightarrow> rows) in
                if length servicesData = 0
                then (None, hs_setLoading False (hs_setServices [] (w\<lparr>store := d1\<rparr>)))
                else
                  (case select_profiles_brief_in (uniq (map s_user_id servicesData)) d1 of
                     (Rejected e, d2) \<Rightarrow> (Some e, w\<lparr>store := d2\<rparr>)
                   | (Resolved r2, d2) \<Rightarrow>
                       (case error r2 of
                          Some profilesError \<Rightarrow> (Some profilesError, w\<lparr>store := d2\<rparr>)
                        | None \<Rightarrow>
                            (case data r2 of
                               None \<Rightarrow> (Some ''TypeError'', w\<lparr>store := d2\<rparr>)
                             | Some profilesData \<Rightarrow>
                                 (let profilesMap = Map_new (map (\<lambda>p. (pb_id p, p)) profilesData)
                                  in (None,
                                      hs_setServices
                                        (map (\<lambda>service. withProfiles (profilesMap (s_user_id service)) service)
                                             servicesData)
                                        (w\<lparr>store := d2\<rparr>)))))))))"

text \<open>Lines 43-84.\<close>

definition fetchAllServices :: "hostel_services world \<Rightarrow> hostel_services world" where
  "fetchAllServices w =
     (case tryFetchAllServices (hs_setError [] (hs_setLoading True w)) of
        (None, w1) \<Rightarrow> hs_setLoading False w1
      | (Some e, w1) \<Rightarrow>
          hs_setLoading False
            (hs_setError ''Failed to fetch service requests. Please check the console.''
               (console_error ''Error fetching services:'' e w1)))"

text \<open>
  Lines 86-98; \<open>now\<close> is the value of \<^verbatim>\<open>new Date()\<close> in the browser, sent in the request
  as \<^verbatim>\<open>updated_at\<close>.
\<close>

definition handleStatusChange ::
  "string \<Rightarrow> string \<Rightarrow> nat \<Rightarrow> hostel_services world \<Rightarrow> hostel_services world" where
  "handleStatusChange serviceId newStatus now w =
     (case update_status serviceId newStatus now (store w) of
        (Rejected e, d1) \<Rightarrow>
          alert ''Failed to update status.''
            (console_error ''Error updating status:'' e (w\<lparr>store := d1\<rparr>))
      | (Resolved r, d1) \<Rightarrow>
          (case error r of
             Some e \<Rightarrow>
               alert ''Failed to update status.''
                 (console_error ''Error updating status:'' e (w\<lparr>store := d1\<rparr>))
           | None \<Rightarrow> fetchAllServices (w\<lparr>store := d1\<rparr>)))"

section \<open>Specification-level notions used by the theorems\<close>

text \<open>A store that answers every request: no fault is injected.\<close>

definition reliable :: "db \<Rightarrow> bool" where
  "reliable d = (\<forall>c. faults d c = Ok)"

text \<open>
  The invariants of the data model (section 3): at most one reaction record per
  (item, viewer) pair, and \<open>likes_count\<close> is the number of reaction records of the item.
\<close>

definition store_consistent :: "db \<Rightarrow> bool" where
  "store_consistent d =
     (distinct (likes_tbl d) \<and>
      (\<forall>t \<in> set (talents_tbl d).
         likes_count t = length (filter (\<lambda>l. fst l = t_id t) (likes_tbl d))))"

text \<open>\<open>d'\<close> is \<open>d\<close> with more requests in its log and the same tables.\<close>

definition extends_log :: "db \<Rightarrow> db \<Rightarrow> bool" where
  "extends_log d d' = (d' = d\<lparr>calls := calls d'\<rparr> \<and> prefix (calls d) (calls d'))"

text \<open>
  The aggregated view as a function of the tables, in the words of sections 4.1-4.3: the
  primary rows in query order, each with the profile its owner reference resolves to and
  with the viewer's liked flag. The theorems relate \<open>fetchTalents\<close> to it.
\<close>

definition joined_of :: "Talent list \<Rightarrow> db \<Rightarrow> TalentWithProfile list" where
  "joined_of rows d =
     (let profilesMap = Map_new (map (\<lambda>p. (p_id p, p))
                          (filter (\<lambda>p. p_id p \<in> set (uniq (map user_id rows))) (profiles_tbl d)))
      in map (\<lambda>t. (withNullProfile t)\<lparr>profile := profilesMap (user_id t)\<rparr>) rows)"

definition view_of :: "sortkey \<Rightarrow> User option \<Rightarrow> db \<Rightarrow> TalentWithProfile list" where
  "view_of k user d =
     (let rows = order_desc (column k) (talents_tbl d);
          profilesMap = Map_new (map (\<lambda>p. (p_id p, p))
                          (filter (\<lambda>p. p_id p \<in> set (uniq (map user_id rows))) (profiles_tbl d)))
      in map (\<lambda>t. (withNullProfile t)
                    \<lparr>profile := profilesMap (user_id t),
                     is_liked := (case user of None \<Rightarrow> False
                                  | Some u \<Rightarrow> (t_id t, u_id u) \<in> set (likes_tbl d))\<rparr>) rows)"

text \<open>The requests of one fetch against a reliable store.\<close>

definition fetch_calls :: "sortkey \<Rightarrow> User option \<Rightarrow> db \<Rightarrow> call list" where
  "fetch_calls k user d =
     SelectTalents k #
     (if talents_tbl d = [] then []
      else [SelectProfilesIn (uniq (map user_id (order_desc (column k) (talents_tbl d))))]) @
     (case user of None \<Rightarrow> [] | Some u \<Rightarrow> [SelectLikes (u_id u)])"

text \<open>The store after the write of one like toggle that the store accepts.\<close>

definition toggle_store :: "bool \<Rightarrow> string \<Rightarrow> string \<Rightarrow> db \<Rightarrow> db" where
  "toggle_store liked tid uid d =
     (if liked
      then recount tid (d\<lparr>calls := calls d @ [DeleteLike tid uid],
                          likes_tbl := filter (\<lambda>l. l \<noteq> (tid, uid)) (likes_tbl d)\<rparr>)
      else recount tid (d\<lparr>calls := calls d @ [InsertLike tid uid],
                          likes_tbl := likes_tbl d @ [(tid, uid)]\<rparr>))"

section \<open>Example data\<close>

text \<open>
  Two content items, the second owned by a profile that no longer exists; two profiles,
  one of them the protected identity; one like; one completed service request.
\<close>

text \<open>
  A case conversion for the examples: it lowers the ASCII capitals and the capital
  letter 0xC9 and keeps every other character.
\<close>

definition sample_lower :: "string \<Rightarrow> string" where
  "sample_lower s =
     map (\<lambda>c. case map_of (zip (''ABCDEFGHIJKLMNOPQRSTUVWXYZ'' @ [CHR 0xC9])
                                 (''abcdefghijklmnopqrstuvwxyz'' @ [CHR 0xE9])) c of
                 Some l \<Rightarrow> l
               | None \<Rightarrow> c) s"

definition talent1 :: Talent where
  "talent1 = \<lparr>t_id = ''t1'', user_id = ''u1'', title = ''Guitar solo'', description = ''Live take'',
     category = ''Music'', media_url = ''m1'', media_type = ''video'',
     tags = Some [''guitar'', ''acoustic''], created_at = 1, likes_count = 1\<rparr>"

definition talent2 :: Talent where
  "talent2 = \<lparr>t_id = ''t2'', user_id = ''u9'', title = ''CAF'' @ [CHR 0xC9] @ '' sketch'',
     description = ''Pencil'',
     category = ''Art'', media_url = ''m2'', media_type = ''image'',
     tags = None, created_at = 2, likes_count = 0\<rparr>"

definition profile1 :: Profile where
  "profile1 = \<lparr>p_id = ''u1'', full_name = Some ''Ann'', email = Some ''ann@example.org'',
     role = ''user'', department = None, year = None, p_created_at = 1\<rparr>"

definition profile0 :: Profile where
  "profile0 = \<lparr>p_id = ''u0'', full_name = Some ''Root'', email = Some ''udhayas1309@gmail.com'',
     role = ''admin'', department = None, year = None, p_created_at = 0\<rparr>"

definition service1 :: HostelService where
  "service1 = \<lparr>s_id = ''s1'', s_created_at = 3, service_type = ''Plumbing'', room_number = ''12'',
     hostel_block = ''B'', status = ''Completed'', priority = ''High'', s_description = ''Leak'',
     s_user_id = ''u1'', updated_at = 3\<rparr>"

definition store0 :: db where
  "store0 = \<lparr>talents_tbl = [talent1, talent2], profiles_tbl = [profile0, profile1],
     likes_tbl = [(''t1'', ''u1'')], services_tbl = [service1], media_objects = [],
     public_url = (\<lambda>path. ''https://cdn/'' @ path), new_id = (\<lambda>n. ''t'' @ show_nat (Suc n)),
     server_clock = 9, faults = (\<lambda>c. Ok), calls = []\<rparr>"

definition showcase0 :: "showcase world" where
  "showcase0 = \<lparr>store = store0,
     ui = \<lparr>talents = [], loading = True, searchQuery = [], sortBy = By_created_at,
            showUploadModal = False,
            modal = \<lparr>uploading = False,
                     formData = \<lparr>fd_title = ''Solo'', fd_description = ''Take 2'',
                                  fd_category = ''Music'', fd_tags = ''guitar, live''\<rparr>,
                     mediaFile = None, fileError = []\<rparr>\<rparr>,
     console = [], alerts = []\<rparr>"

definition ann :: User where "ann = \<lparr>u_id = ''u1''\<rparr>"



definition hostel0 :: "hostel_services world" where
  "hostel0 = \<lparr>store = store0,
     ui = \<lparr>hs_services = [withProfiles (Some (brief profile1)) service1], hs_loading = False,
            hs_error = []\<rparr>,
     console = [], alerts = []\<rparr>"


text \<open>The effect of a status update on one stored request.\<close>

definition set_status :: "string \<Rightarrow> string \<Rightarrow> nat \<Rightarrow> HostelService \<Rightarrow> HostelService" where
  "set_status serviceId newStatus stamp s =
     (if s_id s = serviceId then s\<lparr>status := newStatus, updated_at := stamp\<rparr> else s)"

text \<open>The list \<^verbatim>\<open>fetchAllServices\<close> builds from the tables of a reliable store, and its requests.\<close>

definition services_view :: "db \<Rightarrow> HostelServiceWithProfile list" where
  "services_view d =
     (let rows = order_desc s_created_at (services_tbl d);
          profilesMap = Map_new (map (\<lambda>p. (pb_id p, p))
                          (map brief (filter (\<lambda>p. p_id p \<in> set (uniq (map s_user_id rows)))
                                             (profiles_tbl d))))
      in map (\<lambda>service. withProfiles (profilesMap (s_user_id service)) service) rows)"

definition services_calls :: "db \<Rightarrow> call list" where
  "services_calls d =
     SelectServices #
     (if services_tbl d = [] then []
      else [SelectProfilesBriefIn (uniq (map s_user_id (order_desc s_created_at (services_tbl d))))])"

text \<open>The requests of an upload: the media object and the new row.\<close>

fun is_media_write :: "call \<Rightarrow> bool" where
  "is_media_write (StorageUpload path file) = True"
| "is_media_write (InsertTalent row) = True"
| "is_media_write c = False"

fun inserted_row :: "call \<Rightarrow> NewTalent option" where
  "inserted_row (InsertTalent row) = Some row"
| "inserted_row c = None"

text \<open>Files: within the ceiling, with a type that only starts like a video type, and above the ceiling.\<close>

definition clip :: File where
  "clip = \<lparr>f_name = ''solo.take.mp4'', f_size = 2048, f_type = ''video/mp4''\<rparr>"

definition tape :: File where
  "tape = \<lparr>f_name = ''reel.bin'', f_size = 2048, f_type = ''videotape''\<rparr>"

definition huge :: File where
  "huge = \<lparr>f_name = ''concert.mov'', f_size = 15728640, f_type = ''video/quicktime''\<rparr>"

text \<open>A store that refuses every insert of a reaction record and answers all other requests.\<close>

definition flaky0 :: "showcase world" where
  "flaky0 = showcase0\<lparr>store :=
     store0\<lparr>faults := (\<lambda>c. case c of InsertLike tid uid \<Rightarrow> Failed ''permission denied''
                            | _ \<Rightarrow> Ok)\<rparr>\<rparr>"

section \<open>Properties of the primitives\<close>

lemma startsWith_prefix: "startsWith s q = prefix q s"
  by (induction s q rule: startsWith.induct) auto

lemma includes_sublist: "str_includes s q = sublist q s"
proof (induction s)
  case Nil
  show ?case by simp
next
  case (Cons c s)
  show ?case
    using Cons.IH by (simp add: startsWith_prefix sublist_Cons_right)
qed

lemma includes_ci_substring:
  "str_includes (toLowerCase s) (toLowerCase q) = ci_substring toLowerCase q s"
  by (simp add: includes_sublist sublist_def ci_substring_def)

lemma includes_empty: "str_includes s []"
  by (cases s) simp_all

lemma some_ex: "some p xs = (\<exists>x \<in> set xs. p x)"
  by (induction xs) auto

lemma matchesQuery_spec:
  "matchesQuery lc q t =
     (ci_substring lc q (title t) \<or> ci_substring lc q (description t) \<or>
      (\<exists>ts tag. tags t = Some ts \<and> tag \<in> set ts \<and> ci_substring lc q tag))"
  by (auto simp: matchesQuery_def includes_ci_substring some_ex split: option.splits)

lemma truncate_withNullProfile [simp]: "Talent.truncate (withNullProfile t) = t"
  by (simp add: withNullProfile_def Talent.truncate_def Talent.extend_def TalentWithProfile.fields_def)

lemma truncate_profile_update [simp]: "Talent.truncate (v\<lparr>profile := x\<rparr>) = Talent.truncate v"
  by (simp add: Talent.truncate_def)

lemma truncate_is_liked_update [simp]: "Talent.truncate (v\<lparr>is_liked := x\<rparr>) = Talent.truncate v"
  by (simp add: Talent.truncate_def)

lemma withNullProfile_sel [simp]:
  "profile (withNullProfile t) = None" "is_liked (withNullProfile t) = False"
  "t_id (withNullProfile t) = t_id t" "user_id (withNullProfile t) = user_id t"
  "likes_count (withNullProfile t) = likes_count t"
  by (simp_all add: withNullProfile_def Talent.extend_def TalentWithProfile.fields_def)

lemma request_cases:
  assumes "request c res eff d = (a, d')"
  obtains (thrown) e where "faults d c = Thrown e" "a = Rejected e" "d' = d\<lparr>calls := calls d @ [c]\<rparr>"
  | (failed) e where "faults d c = Failed e" "a = Resolved \<lparr>data = None, error = Some e\<rparr>" "d' = d\<lparr>calls := calls d @ [c]\<rparr>"
  | (ok) "faults d c = Ok" "a = Resolved \<lparr>data = res (d\<lparr>calls := calls d @ [c]\<rparr>), error = None\<rparr>" "d' = eff (d\<lparr>calls := calls d @ [c]\<rparr>)"
  using assms by (cases "faults d c") (auto simp: request_def Let_def)

lemma uniq_set [simp]: "set (uniq xs) = set xs" by (simp add: uniq_def)
lemma uniq_distinct [simp]: "distinct (uniq xs)" by (simp add: uniq_def)
lemma uniq_Nil [simp]: "(uniq xs = []) = (xs = [])" 
  by (metis uniq_set set_empty)

lemma Map_new_None: "(Map_new kvs k = None) = (k \<notin> fst ` set kvs)"
  by (simp add: Map_new_def map_of_eq_None_iff)

lemma Map_new_Some: "Map_new kvs k = Some v \<Longrightarrow> (k, v) \<in> set kvs"
  by (auto simp: Map_new_def dest: map_of_SomeD)

lemma resolveProfiles_truncate:
  "resolveProfiles rows d = (Inr joined, d') \<Longrightarrow> map Talent.truncate joined = rows"
  by (auto simp: resolveProfiles_def Let_def o_def
      split: prod.splits awaited.splits option.splits if_splits)

lemma annotateLikes_truncate:
  "annotateLikes user joined d = (Inr vs, d') \<Longrightarrow> map Talent.truncate vs = map Talent.truncate joined"
  by (auto simp: annotateLikes_def Let_def o_def
      split: prod.splits awaited.splits option.splits)

lemma tryFetchTalents_console [simp]: "console (snd (tryFetchTalents user w)) = console w"
  by (simp add: tryFetchTalents_def setTalents_def
      split: prod.splits awaited.splits option.splits sum.splits)

lemma tryFetchTalents_truncate:
  assumes "tryFetchTalents user w = (None, w')"
    and "select_talents (sortBy (ui w)) (store w) = (Resolved r, d1)"
    and "data r = Some rows"
  shows "map Talent.truncate (talents (ui w')) = rows"
  using assms
  by (auto simp: tryFetchTalents_def setTalents_def
      dest!: resolveProfiles_truncate annotateLikes_truncate
      split: prod.splits awaited.splits option.splits sum.splits)

lemma fetchTalents_ok:
  assumes "console (fetchTalents user w) = console w"
  obtains w' where "tryFetchTalents user (setLoading True w) = (None, w')"
    "fetchTalents user w = setLoading False w'"
proof (cases "tryFetchTalents user (setLoading True w)")
  case (Pair r w')
  have c: "console w' = console w"
  proof -
    have "console (snd (tryFetchTalents user (setLoading True w))) = console (setLoading True w)"
      by (rule tryFetchTalents_console)
    then have "console w' = console (setLoading True w)" by (simp add: Pair)
    then show ?thesis by (simp add: setLoading_def)
  qed
  show ?thesis
  proof (cases r)
    case None
    with Pair that show ?thesis by (simp add: fetchTalents_def)
  next
    case (Some e)
    with Pair assms c show ?thesis
      by (simp add: fetchTalents_def setLoading_def console_error_def)
  qed
qed

lemma fetch_frame_pair:
  assumes "select_talents (sortBy (ui w)) (store w) = (Resolved r, d1)"
    and "data r = Some rows"
    and "console (fetchTalents user w) = console w"
  shows "map Talent.truncate (talents (ui (fetchTalents user w))) = rows"
proof -
  from assms(3) obtain w' where t: "tryFetchTalents user (setLoading True w) = (None, w')"
    and f: "fetchTalents user w = setLoading False w'"
    by (rule fetchTalents_ok)
  have "map Talent.truncate (talents (ui w')) = rows"
    using tryFetchTalents_truncate [OF t] assms(1,2) by (simp add: setLoading_def)
  then show ?thesis by (simp add: f setLoading_def)
qed

lemma select_profiles_in_store:
  "select_profiles_in ids d = (a, d') \<Longrightarrow> d' = d\<lparr>calls := calls d @ [SelectProfilesIn ids]\<rparr>"
  by (cases "faults d (SelectProfilesIn ids)") (auto simp: select_profiles_in_def request_def Let_def)

lemma select_likes_store:
  "select_likes uid d = (a, d') \<Longrightarrow> d' = d\<lparr>calls := calls d @ [SelectLikes uid]\<rparr>"
  by (cases "faults d (SelectLikes uid)") (auto simp: select_likes_def request_def Let_def)

lemma select_talents_store:
  "select_talents k d = (a, d') \<Longrightarrow> d' = d\<lparr>calls := calls d @ [SelectTalents k]\<rparr>"
  by (cases "faults d (SelectTalents k)") (auto simp: select_talents_def request_def Let_def)

lemma resolveProfiles_calls:
  "calls (snd (resolveProfiles rows d)) =
     calls d @ (if rows = [] then [] else [SelectProfilesIn (uniq (map user_id rows))])"
proof (cases "rows = []")
  case True
  then show ?thesis by (simp add: resolveProfiles_def uniq_def)
next
  case False
  then show ?thesis
    by (auto simp: resolveProfiles_def Let_def dest!: select_profiles_in_store
        split: prod.splits awaited.splits option.splits)
qed

lemma resolveProfiles_missing:
  assumes "resolveProfiles rows d = (Inr joined, d')" and "v \<in> set joined"
    and "\<forall>p \<in> set (profiles_tbl d). p_id p \<noteq> user_id v"
  shows "profile v = None"
proof (cases "rows = []")
  case True
  with assms show ?thesis by (simp add: resolveProfiles_def uniq_def)
next
  case False
  obtain a d1 where q: "select_profiles_in (uniq (map user_id rows)) d = (a, d1)"
    by (cases "select_profiles_in (uniq (map user_id rows)) d")
  from q show ?thesis
    unfolding select_profiles_in_def
  proof (cases rule: request_cases)
    case (thrown e)
    with assms(1) False q show ?thesis by (simp add: resolveProfiles_def)
  next
    case (failed e)
    with assms(1) False q show ?thesis by (simp add: resolveProfiles_def)
  next
    case ok
    with assms False q show ?thesis
      by (auto simp: resolveProfiles_def Let_def Map_new_None image_iff)
  qed
qed

text \<open>
  C6. With no viewer the personalisation step sends no request and leaves the records as
  they came from the join, where every flag is false. With a viewer it sends exactly one
  request, for the reactions of that viewer, and on its answer every flag says whether the
  viewer has a reaction record for the record's id.
\<close>

theorem C6_personalization:
  "annotateLikes None rs d = (Inr rs, d)
   \<and> (\<forall>joined d'. resolveProfiles rows d = (Inr joined, d') \<longrightarrow> (\<forall>v \<in> set joined. \<not> is_liked v))
   \<and> calls (snd (annotateLikes (Some u) rs d)) = calls d @ [SelectLikes (u_id u)]
   \<and> (faults d (SelectLikes (u_id u)) = Ok \<longrightarrow>
        fst (annotateLikes (Some u) rs d) =
          Inr (map (\<lambda>v. v\<lparr>is_liked := ((t_id v, u_id u) \<in> set (likes_tbl d))\<rparr>) rs))"
proof (intro conjI allI impI ballI)
  show "annotateLikes None rs d = (Inr rs, d)" by (simp add: annotateLikes_def)
next
  fix joined d' v
  assume "resolveProfiles rows d = (Inr joined, d')" "v \<in> set joined"
  then show "\<not> is_liked v"
    by (auto simp: resolveProfiles_def Let_def
        split: prod.splits awaited.splits option.splits if_splits)
next
  show "calls (snd (annotateLikes (Some u) rs d)) = calls d @ [SelectLikes (u_id u)]"
    by (auto simp: annotateLikes_def Let_def dest!: select_likes_store split: prod.splits awaited.splits)
next
  assume "faults d (SelectLikes (u_id u)) = Ok"
  then show "fst (annotateLikes (Some u) rs d) =
          Inr (map (\<lambda>v. v\<lparr>is_liked := ((t_id v, u_id u) \<in> set (likes_tbl d))\<rparr>) rs)"
    by (auto simp: annotateLikes_def select_likes_def request_def Let_def image_iff)
qed

lemma select_profiles_brief_in_store:
  "select_profiles_brief_in ids d = (a, d') \<Longrightarrow> d' = d\<lparr>calls := calls d @ [SelectProfilesBriefIn ids]\<rparr>"
  by (cases "faults d (SelectProfilesBriefIn ids)")
     (auto simp: select_profiles_brief_in_def request_def Let_def)

lemma withProfile_sel [simp]:
  "a_profile (withProfile p t) = p" "user_id (withProfile p t) = user_id t"
  "Talent.truncate (withProfile p t) = t"
  by (simp_all add: withProfile_def Talent.extend_def AdminTalent.fields_def Talent.truncate_def)

lemma joinAllTalents_calls:
  "calls (snd (joinAllTalents rows d)) =
     calls d @ (if rows = [] then [] else [SelectProfilesBriefIn (uniq (map user_id rows))])"
  by (auto simp: joinAllTalents_def Let_def dest!: select_profiles_brief_in_store
        split: prod.splits awaited.splits option.splits)

lemma joinAllTalents_missing:
  assumes "joinAllTalents rows d = (Inr joined, d')" and "v \<in> set joined"
    and "\<forall>p \<in> set (profiles_tbl d). p_id p \<noteq> user_id v"
  shows "a_profile v = None"
proof (cases "rows = []")
  case True
  with assms show ?thesis by (simp add: joinAllTalents_def)
next
  case False
  obtain a d1 where q: "select_profiles_brief_in (uniq (map user_id rows)) d = (a, d1)"
    by (cases "select_profiles_brief_in (uniq (map user_id rows)) d")
  from q show ?thesis
    unfolding select_profiles_brief_in_def
  proof (cases rule: request_cases)
    case (thrown e)
    with assms(1) False q show ?thesis by (simp add: joinAllTalents_def)
  next
    case (failed e)
    with assms(1) False q show ?thesis by (simp add: joinAllTalents_def)
  next
    case ok
    with assms False q show ?thesis
      by (auto simp: joinAllTalents_def Let_def Map_new_None image_iff brief_def)
  qed
qed

lemma joinAllTalents_truncate:
  "joinAllTalents rows d = (Inr joined, d') \<Longrightarrow> map Talent.truncate joined = rows"
  by (auto simp: joinAllTalents_def Let_def o_def
      split: prod.splits awaited.splits option.splits if_splits)

text \<open>
  C5. The join takes the distinct owner references of the primary rows. When there is
  none it sends no request and every record keeps a null profile; otherwise it sends
  exactly one request, for the deduplicated references. A join that succeeds gives one
  record per primary row, in order and with the fields of the row, and the record of a
  row whose reference matches no stored profile has a null profile. Both pages (\<open>resolveProfiles\<close> of
  \<^verbatim>\<open>TalentShowcase\<close>, \<open>joinAllTalents\<close> of \<^verbatim>\<open>AdminTalentShowcase\<close>) do so.
\<close>

theorem C5_join_resolver:
  "distinct (uniq (map user_id rows))
   \<and> set (uniq (map user_id rows)) = user_id ` set rows
   \<and> calls (snd (resolveProfiles rows d)) =
       calls d @ (if uniq (map user_id rows) = [] then []
                  else [SelectProfilesIn (uniq (map user_id rows))])
   \<and> calls (snd (joinAllTalents rows d)) =
       calls d @ (if uniq (map user_id rows) = [] then []
                  else [SelectProfilesBriefIn (uniq (map user_id rows))])
   \<and> (uniq (map user_id rows) = [] \<longrightarrow>
        fst (resolveProfiles rows d) = Inr (map withNullProfile rows)
        \<and> fst (joinAllTalents rows d) = Inr (map (withProfile None) rows))
   \<and> (\<forall>joined d'. resolveProfiles rows d = (Inr joined, d') \<longrightarrow>
        map Talent.truncate joined = rows
        \<and> (\<forall>v \<in> set joined.
             (\<forall>p \<in> set (profiles_tbl d). p_id p \<noteq> user_id v) \<longrightarrow> profile v = None))
   \<and> (\<forall>joined d'. joinAllTalents rows d = (Inr joined, d') \<longrightarrow>
        map Talent.truncate joined = rows
        \<and> (\<forall>v \<in> set joined.
             (\<forall>p \<in> set (profiles_tbl d). p_id p \<noteq> user_id v) \<longrightarrow> a_profile v = None))"
proof (intro conjI)
  show "distinct (uniq (map user_id rows))" by simp
  show "set (uniq (map user_id rows)) = user_id ` set rows" by simp
  show "calls (snd (resolveProfiles rows d)) =
       calls d @ (if uniq (map user_id rows) = [] then []
                  else [SelectProfilesIn (uniq (map user_id rows))])"
    by (simp add: resolveProfiles_calls)
  show "calls (snd (joinAllTalents rows d)) =
       calls d @ (if uniq (map user_id rows) = [] then []
                  else [SelectProfilesBriefIn (uniq (map user_id rows))])"
    by (simp add: joinAllTalents_calls)
  show "uniq (map user_id rows) = [] \<longrightarrow>
        fst (resolveProfiles rows d) = Inr (map withNullProfile rows)
        \<and> fst (joinAllTalents rows d) = Inr (map (withProfile None) rows)"
    by (simp add: resolveProfiles_def joinAllTalents_def uniq_def)
  show "\<forall>joined d'. resolveProfiles rows d = (Inr joined, d') \<longrightarrow>
        map Talent.truncate joined = rows
        \<and> (\<forall>v \<in> set joined.
             (\<forall>p \<in> set (profiles_tbl d). p_id p \<noteq> user_id v) \<longrightarrow> profile v = None)"
    using resolveProfiles_missing resolveProfiles_truncate by blast
  show "\<forall>joined d'. joinAllTalents rows d = (Inr joined, d') \<longrightarrow>
        map Talent.truncate joined = rows
        \<and> (\<forall>v \<in> set joined.
             (\<forall>p \<in> set (profiles_tbl d). p_id p \<noteq> user_id v) \<longrightarrow> a_profile v = None)"
    using joinAllTalents_missing joinAllTalents_truncate by blast
qed

lemma request_ok:
  "faults d c = Ok \<Longrightarrow>
   request c res eff d =
     (Resolved \<lparr>data = res (d\<lparr>calls := calls d @ [c]\<rparr>), error = None\<rparr>, eff (d\<lparr>calls := calls d @ [c]\<rparr>))"
  by (simp add: request_def Let_def)

lemma reliable_calls [simp]: "reliable (d\<lparr>calls := cs\<rparr>) = reliable d"
  by (simp add: reliable_def)

lemma reliableD: "reliable d \<Longrightarrow> faults d c = Ok"
  by (simp add: reliable_def)

lemma append_calls_Nil [simp]: "d\<lparr>calls := calls d\<rparr> = (d::db)"
  by simp

lemma resolveProfiles_reliable:
  assumes "reliable d"
  shows "resolveProfiles rows d =
     (Inr (joined_of rows d),
      d\<lparr>calls := calls d @ (if rows = [] then [] else [SelectProfilesIn (uniq (map user_id rows))])\<rparr>)"
proof (cases "rows = []")
  case True
  then show ?thesis by (simp add: resolveProfiles_def joined_of_def uniq_def)
next
  case False
  then show ?thesis
    by (simp add: resolveProfiles_def joined_of_def Let_def select_profiles_in_def
        request_ok reliableD [OF assms] o_def)
qed

lemma annotateLikes_reliable:
  assumes "reliable d"
  shows "annotateLikes user vs d =
     (Inr (map (\<lambda>v. v\<lparr>is_liked := (case user of None \<Rightarrow> is_liked v
                                   | Some u \<Rightarrow> (t_id v, u_id u) \<in> set (likes_tbl d))\<rparr>) vs),
      d\<lparr>calls := calls d @ (case user of None \<Rightarrow> [] | Some u \<Rightarrow> [SelectLikes (u_id u)])\<rparr>)"
proof (cases user)
  case None
  then show ?thesis by (simp add: annotateLikes_def)
next
  case (Some u)
  then show ?thesis
    by (auto simp: annotateLikes_def select_likes_def request_ok reliableD [OF assms] image_iff)
qed

lemma view_of_stages:
  "view_of k user d =
     map (\<lambda>v. v\<lparr>is_liked := (case user of None \<Rightarrow> is_liked v
                              | Some u \<Rightarrow> (t_id v, u_id u) \<in> set (likes_tbl d))\<rparr>)
         (joined_of (order_desc (column k) (talents_tbl d)) d)"
  by (cases user) (simp_all add: view_of_def joined_of_def Let_def o_def)

lemma order_desc_Nil [simp]: "(order_desc key rows = []) = (rows = [])"
proof -
  have "length (order_desc key rows) = length rows" by (simp add: order_desc_def)
  then show ?thesis by (metis length_0_conv)
qed

lemma joined_of_calls [simp]: "joined_of rows (d\<lparr>calls := cs\<rparr>) = joined_of rows d"
  by (simp add: joined_of_def)

lemma tryFetchTalents_reliable:
  assumes "reliable (store w)"
  shows "tryFetchTalents user w =
     (None, setTalents (view_of (sortBy (ui w)) user (store w))
        (w\<lparr>store := (store w)\<lparr>calls := calls (store w) @ fetch_calls (sortBy (ui w)) user (store w)\<rparr>\<rparr>))"
  using assms
  by (cases user)
     (simp_all add: tryFetchTalents_def select_talents_def request_ok reliableD [OF assms]
      resolveProfiles_reliable annotateLikes_reliable view_of_stages fetch_calls_def)

lemma fetchTalents_reliable:
  assumes "reliable (store w)"
  shows "fetchTalents user w =
      w\<lparr>store := (store w)\<lparr>calls := calls (store w) @ fetch_calls (sortBy (ui w)) user (store w)\<rparr>,
        ui := (ui w)\<lparr>talents := view_of (sortBy (ui w)) user (store w), loading := False\<rparr>\<rparr>"
proof -
  have "reliable (store (setLoading True w))" using assms by (simp add: setLoading_def)
  from tryFetchTalents_reliable [OF this, of user]
  show ?thesis
    by (simp add: fetchTalents_def setLoading_def setTalents_def)
qed

lemma toggle_store_reliable [simp]: "reliable (toggle_store liked tid uid d) = reliable d"
  by (simp add: toggle_store_def recount_def reliable_def)





lemma view_of_cong:
  "talents_tbl d = talents_tbl d' \<Longrightarrow> profiles_tbl d = profiles_tbl d' \<Longrightarrow>
   set (likes_tbl d) = set (likes_tbl d') \<Longrightarrow> view_of k user d = view_of k user d'"
  by (cases user) (simp_all add: view_of_def)




lemma store_consistent_calls [simp]: "store_consistent (d\<lparr>calls := cs\<rparr>) = store_consistent d"
  by (simp add: store_consistent_def)

lemma view_of_calls [simp]: "view_of k user (d\<lparr>calls := cs\<rparr>) = view_of k user d"
  by (rule view_of_cong) simp_all

lemma recount_ids: "map t_id (talents_tbl (recount tid d)) = map t_id (talents_tbl d)"
proof -
  have "map (t_id \<circ> (\<lambda>t. if t_id t = tid then t\<lparr>likes_count := n\<rparr> else t)) ts = map t_id ts"
    for n :: nat and ts :: "Talent list"
    by (rule map_cong) simp_all
  then show ?thesis by (simp add: recount_def)
qed

lemma toggle_store_map_ids:
  "map t_id (talents_tbl (toggle_store liked tid uid d)) = map t_id (talents_tbl d)"
  by (simp add: toggle_store_def recount_ids)

lemma toggle_store_ids [simp]:
  "t_id ` set (talents_tbl (toggle_store liked tid uid d)) = t_id ` set (talents_tbl d)"
  by (simp only: set_map [symmetric] toggle_store_map_ids)


lemma fetchTalents_reliable_sel:
  assumes "reliable (store w)"
  shows "talents (ui (fetchTalents user w)) = view_of (sortBy (ui w)) user (store w)"
    and "sortBy (ui (fetchTalents user w)) = sortBy (ui w)"
    and "store (fetchTalents user w) =
           (store w)\<lparr>calls := calls (store w) @ fetch_calls (sortBy (ui w)) user (store w)\<rparr>"
  by (simp_all add: fetchTalents_reliable [OF assms])





lemma extends_log_refl [simp]: "extends_log d d"
  by (simp add: extends_log_def)

lemma extends_log_append [simp]: "extends_log d (d\<lparr>calls := calls d @ cs\<rparr>)"
  by (simp add: extends_log_def)

lemma extends_log_trans: "extends_log d d' \<Longrightarrow> extends_log d' d'' \<Longrightarrow> extends_log d d''"
proof -
  assume a: "extends_log d d'" and b: "extends_log d' d''"
  have "d'' = d'\<lparr>calls := calls d''\<rparr>" using b by (simp add: extends_log_def)
  also have "d' = d\<lparr>calls := calls d'\<rparr>" using a by (simp add: extends_log_def)
  finally have "d'' = d\<lparr>calls := calls d''\<rparr>" by simp
  moreover have "prefix (calls d) (calls d'')"
    using a b by (auto simp: extends_log_def intro: prefix_order.trans)
  ultimately show ?thesis by (simp add: extends_log_def)
qed

lemma resolveProfiles_store:
  "resolveProfiles rows d = (r, d') \<Longrightarrow> extends_log d d'"
  by (auto simp: resolveProfiles_def Let_def dest!: select_profiles_in_store
      split: prod.splits awaited.splits option.splits if_splits)

lemma annotateLikes_store:
  "annotateLikes user vs d = (r, d') \<Longrightarrow> extends_log d d'"
  by (auto simp: annotateLikes_def Let_def dest!: select_likes_store
      split: prod.splits awaited.splits option.splits)

lemma tryFetchTalents_store:
  "extends_log ((store w)\<lparr>calls := calls (store w) @ [SelectTalents (sortBy (ui w))]\<rparr>)
     (store (snd (tryFetchTalents user w)))"
proof -
  let ?d1 = "(store w)\<lparr>calls := calls (store w) @ [SelectTalents (sortBy (ui w))]\<rparr>"
  obtain a d1 where q: "select_talents (sortBy (ui w)) (store w) = (a, d1)"
    by (cases "select_talents (sortBy (ui w)) (store w)")
  then have d1: "d1 = ?d1"
    by (rule select_talents_store)
  show ?thesis
  proof (cases a)
    case (Rejected e)
    with q d1 show ?thesis by (simp add: tryFetchTalents_def)
  next
    case (Resolved r)
    show ?thesis
    proof (cases "error r")
      case (Some e)
      with q d1 Resolved show ?thesis by (simp add: tryFetchTalents_def)
    next
      case None
      show ?thesis
      proof (cases "data r")
        case no: None
        with q d1 Resolved None show ?thesis by (simp add: tryFetchTalents_def setTalents_def)
      next
        case (Some rows)
        obtain r2 d2 where j: "resolveProfiles rows ?d1 = (r2, d2)"
          by (cases "resolveProfiles rows ?d1")
        then have d2: "extends_log ?d1 d2"
          by (rule resolveProfiles_store)
        show ?thesis
        proof (cases r2)
          case (Inl e)
          with q d1 Resolved None Some j d2 show ?thesis by (simp add: tryFetchTalents_def)
        next
          case (Inr joined)
          obtain r3 d3 where l: "annotateLikes user joined d2 = (r3, d3)"
            by (cases "annotateLikes user joined d2")
          then have "extends_log d2 d3"
            by (rule annotateLikes_store)
          with d2 have d3: "extends_log ?d1 d3" by (rule extends_log_trans)
          from q d1 Resolved None Some j Inr l d3 show ?thesis
            by (cases r3) (simp_all add: tryFetchTalents_def setTalents_def)
        qed
      qed
    qed
  qed
qed

lemma fetchTalents_store:
  "extends_log ((store w)\<lparr>calls := calls (store w) @ [SelectTalents (sortBy (ui w))]\<rparr>)
     (store (fetchTalents user w))"
proof -
  have "extends_log ((store w)\<lparr>calls := calls (store w) @ [SelectTalents (sortBy (ui w))]\<rparr>)
     (store (snd (tryFetchTalents user (setLoading True w))))"
    using tryFetchTalents_store [of "setLoading True w" user] by (simp add: setLoading_def)
  then show ?thesis
    by (cases "tryFetchTalents user (setLoading True w)")
       (auto simp: fetchTalents_def setLoading_def console_error_def split: option.splits)
qed

text \<open>
  C3. Without a viewer \<open>handleLike\<close> only raises the sign-in alert and the store is
  untouched. With a viewer and the item in the loaded view, a liked item has the records
  of the (item, viewer) pair deleted and an item not liked gets a new record; the write is
  followed by the primary query of a re-fetch, and the result is that of \<open>fetchTalents\<close>
  run on the view as it was: nothing is patched locally.
\<close>

theorem C3_toggleReaction:
  "handleLike None tid w = alert ''You must be logged in to like a post.'' w
   \<and> store (handleLike None tid w) = store w
   \<and> (\<forall>t. find (\<lambda>v. t_id v = tid) (talents (ui w)) = Some t
          \<and> faults (store w) (if is_liked t then DeleteLike tid (u_id u)
                               else InsertLike tid (u_id u)) = Ok \<longrightarrow>
        likes_tbl (store (handleLike (Some u) tid w)) =
          (if is_liked t then filter (\<lambda>l. l \<noteq> (tid, u_id u)) (likes_tbl (store w))
           else likes_tbl (store w) @ [(tid, u_id u)])
        \<and> prefix (calls (store w) @
                    [if is_liked t then DeleteLike tid (u_id u) else InsertLike tid (u_id u),
                     SelectTalents (sortBy (ui w))])
                  (calls (store (handleLike (Some u) tid w)))
        \<and> (\<exists>d'. handleLike (Some u) tid w = fetchTalents (Some u) (w\<lparr>store := d'\<rparr>)))"
proof (intro conjI allI impI)
  show "handleLike None tid w = alert ''You must be logged in to like a post.'' w"
    by (simp add: handleLike_def)
  show "store (handleLike None tid w) = store w"
    by (simp add: handleLike_def alert_def)
next
  fix t
  assume a: "find (\<lambda>v. t_id v = tid) (talents (ui w)) = Some t
          \<and> faults (store w) (if is_liked t then DeleteLike tid (u_id u)
                               else InsertLike tid (u_id u)) = Ok"
  define d' where "d' = toggle_store (is_liked t) tid (u_id u) (store w)"
  have h: "handleLike (Some u) tid w = fetchTalents (Some u) (w\<lparr>store := d'\<rparr>)"
    using a by (cases "is_liked t")
      (simp_all add: handleLike_def d'_def toggle_store_def insert_like_def delete_like_def request_ok)
  have e: "extends_log (d'\<lparr>calls := calls d' @ [SelectTalents (sortBy (ui w))]\<rparr>)
      (store (handleLike (Some u) tid w))"
    using fetchTalents_store [of "w\<lparr>store := d'\<rparr>" "Some u"] by (simp add: h)
  then have s: "store (handleLike (Some u) tid w) =
      d'\<lparr>calls := calls (store (handleLike (Some u) tid w))\<rparr>"
    and p: "prefix (calls d' @ [SelectTalents (sortBy (ui w))])
      (calls (store (handleLike (Some u) tid w)))"
    by (simp_all add: extends_log_def)
  show "likes_tbl (store (handleLike (Some u) tid w)) =
          (if is_liked t then filter (\<lambda>l. l \<noteq> (tid, u_id u)) (likes_tbl (store w))
           else likes_tbl (store w) @ [(tid, u_id u)])"
    by (subst s, cases "is_liked t") (simp_all add: d'_def toggle_store_def recount_def)
  show "prefix (calls (store w) @
                    [if is_liked t then DeleteLike tid (u_id u) else InsertLike tid (u_id u),
                     SelectTalents (sortBy (ui w))])
                  (calls (store (handleLike (Some u) tid w)))"
    using p by (cases "is_liked t") (simp_all add: d'_def toggle_store_def recount_def)
  show "\<exists>d'. handleLike (Some u) tid w = fetchTalents (Some u) (w\<lparr>store := d'\<rparr>)"
    using h by blast
qed

text \<open>
  C10. When the primary query answers with rows and the fetch ends without an error, the
  list given to the page has the rows of the primary query, in their order, and every
  record is its row in all fields but \<open>profile\<close> and \<open>is_liked\<close>.
\<close>

theorem C10_fetch_frame:
  assumes "fst (select_talents (sortBy (ui w)) (store w)) = Resolved r"
    and "data r = Some rows"
    and "console (fetchTalents user w) = console w"
  shows "map Talent.truncate (talents (ui (fetchTalents user w))) = rows"
proof -
  from assms(1) have "select_talents (sortBy (ui w)) (store w) =
      (Resolved r, snd (select_talents (sortBy (ui w)) (store w)))"
    by (metis prod.collapse)
  then show ?thesis using assms(2,3) by (rule fetch_frame_pair)
qed

theorem C10_fetch_frame_witness:
  "fst (select_talents (sortBy (ui showcase0)) (store showcase0)) =
      Resolved \<lparr>data = Some [talent2, talent1], error = None\<rparr>
   \<and> console (fetchTalents (Some ann) showcase0) = console showcase0
   \<and> map Talent.truncate (talents (ui (fetchTalents (Some ann) showcase0))) = [talent2, talent1]"
proof -
  have h1: "fst (select_talents (sortBy (ui showcase0)) (store showcase0)) =
      Resolved \<lparr>data = Some [talent2, talent1], error = None\<rparr>"
    by code_simp
  have h2: "data \<lparr>data = Some [talent2, talent1], error = None\<rparr> = Some [talent2, talent1]"
    by simp
  have h3: "console (fetchTalents (Some ann) showcase0) = console showcase0"
    by code_simp
  show ?thesis using h1 h3 C10_fetch_frame [OF h1 h2 h3] by simp
qed



theorem C6_personalization_witness:
  "annotateLikes None (map withNullProfile [talent1, talent2]) store0 =
     (Inr (map withNullProfile [talent1, talent2]), store0)
   \<and> faults store0 (SelectLikes (u_id ann)) = Ok
   \<and> calls (snd (annotateLikes (Some ann) (map withNullProfile [talent1, talent2]) store0)) =
       [SelectLikes ''u1'']
   \<and> (case fst (annotateLikes (Some ann) (map withNullProfile [talent1, talent2]) store0) of
         Inl e \<Rightarrow> [] | Inr vs \<Rightarrow> map is_liked vs) = [True, False]"
proof -
  have f: "faults store0 (SelectLikes (u_id ann)) = Ok" by (simp add: store0_def)
  have c: "calls store0 = []" by (simp add: store0_def)
  have ua: "u_id ann = ''u1''" by (simp add: ann_def)
  have m: "map is_liked (map (\<lambda>v. v\<lparr>is_liked := ((t_id v, u_id ann) \<in> set (likes_tbl store0))\<rparr>)
             (map withNullProfile [talent1, talent2])) = [True, False]"
    by code_simp
  show ?thesis
    using f c m C6_personalization [of "map withNullProfile [talent1, talent2]" store0 "[talent1, talent2]" ann]
    by (simp add: ua)
qed

theorem C3_toggleReaction_witness:
  "find (\<lambda>v. t_id v = ''t1'') (talents (ui (fetchTalents (Some ann) showcase0))) \<noteq> None
   \<and> likes_tbl (store (handleLike (Some ann) ''t1'' (fetchTalents (Some ann) showcase0))) = []
   \<and> prefix [SelectTalents By_created_at, SelectProfilesIn [''u9'', ''u1''], SelectLikes ''u1'',
              DeleteLike ''t1'' ''u1'', SelectTalents By_created_at]
        (calls (store (handleLike (Some ann) ''t1'' (fetchTalents (Some ann) showcase0))))"
proof -
  let ?w = "fetchTalents (Some ann) showcase0"
  let ?t = "Talent.extend talent1 (TalentWithProfile.fields (Some profile1) True)"
  have f: "find (\<lambda>v. t_id v = ''t1'') (talents (ui ?w)) = Some ?t" by code_simp
  have l: "is_liked ?t" by code_simp
  have o: "faults (store ?w) (if is_liked ?t then DeleteLike ''t1'' (u_id ann)
                               else InsertLike ''t1'' (u_id ann)) = Ok"
    by code_simp
  have lk: "likes_tbl (store ?w) = [(''t1'', ''u1'')]" by code_simp
  have cl: "calls (store ?w) = [SelectTalents By_created_at, SelectProfilesIn [''u9'', ''u1''], SelectLikes ''u1'']"
    by code_simp
  have k: "sortBy (ui ?w) = By_created_at" by code_simp
  have ua: "u_id ann = ''u1''" by (simp add: ann_def)
  from C3_toggleReaction [of "''t1''" ?w ann] f o
  have "likes_tbl (store (handleLike (Some ann) ''t1'' ?w)) =
          (if is_liked ?t then filter (\<lambda>l. l \<noteq> (''t1'', u_id ann)) (likes_tbl (store ?w))
           else likes_tbl (store ?w) @ [(''t1'', u_id ann)])
        \<and> prefix (calls (store ?w) @
                    [if is_liked ?t then DeleteLike ''t1'' (u_id ann) else InsertLike ''t1'' (u_id ann),
                     SelectTalents (sortBy (ui ?w))])
                  (calls (store (handleLike (Some ann) ''t1'' ?w)))"
    by blast
  then show ?thesis
    using f by (simp add: l lk cl k ua)
qed

section \<open>Claims on the search filter\<close>

text \<open>
  C7. Whatever the case conversion of the runtime is, the client-side filter keeps, in
  their order, exactly the records whose title, description or some tag contains the
  filter text as a case-insensitive substring (the lowered filter text occurs in the
  lowered field); as the conversion maps the empty string to itself, the empty filter
  text gives the whole list back.
\<close>

theorem C7_filter_substring:
  "filteredTalents toLowerCase q ts =
     filter (\<lambda>t. ci_substring toLowerCase q (title t)
                 \<or> ci_substring toLowerCase q (description t)
                 \<or> (\<exists>tgs tag. tags t = Some tgs \<and> tag \<in> set tgs
                               \<and> ci_substring toLowerCase q tag)) ts
   \<and> (toLowerCase [] = [] \<longrightarrow> filteredTalents toLowerCase [] ts = ts)"
proof (intro conjI impI)
  show "filteredTalents toLowerCase q ts =
     filter (\<lambda>t. ci_substring toLowerCase q (title t)
                 \<or> ci_substring toLowerCase q (description t)
                 \<or> (\<exists>tgs tag. tags t = Some tgs \<and> tag \<in> set tgs
                               \<and> ci_substring toLowerCase q tag)) ts"
    unfolding filteredTalents_def by (rule filter_cong) (simp_all add: matchesQuery_spec)
next
  assume "toLowerCase [] = []"
  then have "\<And>t. matchesQuery toLowerCase [] t"
    by (simp add: matchesQuery_def includes_empty)
  then show "filteredTalents toLowerCase [] ts = ts"
    by (simp add: filteredTalents_def)
qed



lemma set_order_desc [simp]: "set (order_desc key rows) = set rows"
  by (simp add: order_desc_def)




theorem C5_join_resolver_witness:
  "uniq (map user_id [talent1, talent2, talent1]) = [''u1'', ''u9'']
   \<and> calls (snd (resolveProfiles [talent1, talent2, talent1] store0)) = [SelectProfilesIn [''u1'', ''u9'']]
   \<and> calls (snd (joinAllTalents [talent1, talent2, talent1] store0)) = [SelectProfilesBriefIn [''u1'', ''u9'']]
   \<and> calls (snd (resolveProfiles [] store0)) = []
   \<and> fst (resolveProfiles [] store0) = Inr []
   \<and> (case fst (resolveProfiles [talent1, talent2, talent1] store0) of
         Inl e \<Rightarrow> [] | Inr joined \<Rightarrow> map profile joined) = [Some profile1, None, Some profile1]
   \<and> (case fst (joinAllTalents [talent1, talent2, talent1] store0) of
         Inl e \<Rightarrow> [] | Inr joined \<Rightarrow> map (\<lambda>v. (t_id v, a_profile v)) joined) =
       [(''t1'', Some (brief profile1)), (''t2'', None), (''t1'', Some (brief profile1))]"
proof -
  let ?rows = "[talent1, talent2, talent1]"
  have u: "uniq (map user_id ?rows) = [''u1'', ''u9'']" by code_simp
  have c: "calls store0 = []" by (simp add: store0_def)
  have e: "uniq (map user_id ([] :: Talent list)) = []" by (simp add: uniq_def)
  have j: "(case fst (resolveProfiles ?rows store0) of
         Inl e \<Rightarrow> [] | Inr joined \<Rightarrow> map profile joined) = [Some profile1, None, Some profile1]"
    by code_simp
  have a: "(case fst (joinAllTalents ?rows store0) of
         Inl e \<Rightarrow> [] | Inr joined \<Rightarrow> map (\<lambda>v. (t_id v, a_profile v)) joined) =
       [(''t1'', Some (brief profile1)), (''t2'', None), (''t1'', Some (brief profile1))]"
    by code_simp
  show ?thesis
    using u c e j a C5_join_resolver [of ?rows store0] C5_join_resolver [of "[]" store0]
    by simp
qed

lemma truncate_withProfiles [simp]: "HostelService.truncate (withProfiles p s) = s"
  by (simp add: withProfiles_def HostelService.truncate_def HostelService.extend_def
      HostelServiceWithProfile.fields_def)

lemma services_view_truncate:
  "map HostelService.truncate (services_view d) = order_desc s_created_at (services_tbl d)"
  by (simp add: services_view_def Let_def o_def)

lemma tryFetchAllServices_reliable:
  assumes "reliable (store w)"
  shows "tryFetchAllServices w =
     (None, w\<lparr>store := (store w)\<lparr>calls := calls (store w) @ services_calls (store w)\<rparr>,
              ui := (if services_tbl (store w) = []
                     then (ui w)\<lparr>hs_services := [], hs_loading := False\<rparr>
                     else (ui w)\<lparr>hs_services := services_view (store w)\<rparr>)\<rparr>)"
proof (cases "services_tbl (store w) = []")
  case True
  then show ?thesis
    by (simp add: tryFetchAllServices_def select_services_def request_ok reliableD [OF assms]
        services_calls_def hs_setServices_def hs_setLoading_def)
next
  case False
  then show ?thesis
    by (simp add: tryFetchAllServices_def select_services_def select_profiles_brief_in_def
        request_ok reliableD [OF assms] services_calls_def services_view_def
        hs_setServices_def hs_setLoading_def Let_def)
qed

lemma fetchAllServices_reliable:
  assumes "reliable (store w)"
  shows "store (fetchAllServices w) = (store w)\<lparr>calls := calls (store w) @ services_calls (store w)\<rparr>"
    and "hs_services (ui (fetchAllServices w)) = services_view (store w)"
proof -
  have r: "reliable (store (hs_setError [] (hs_setLoading True w)))"
    using assms by (simp add: hs_setError_def hs_setLoading_def)
  have s: "store (hs_setError [] (hs_setLoading True w)) = store w"
    by (simp add: hs_setError_def hs_setLoading_def)
  note t = tryFetchAllServices_reliable [OF r]
  show "store (fetchAllServices w) = (store w)\<lparr>calls := calls (store w) @ services_calls (store w)\<rparr>"
    by (simp only: fetchAllServices_def t) (simp add: hs_setLoading_def hs_setError_def)
  show "hs_services (ui (fetchAllServices w)) = services_view (store w)"
    by (simp only: fetchAllServices_def t)
       (simp add: hs_setLoading_def hs_setError_def services_view_def)
qed

lemma handleStatusChange_reliable:
  assumes "reliable (store w)"
  shows "handleStatusChange serviceId newStatus now w =
     fetchAllServices
       (w\<lparr>store := (store w)\<lparr>calls := calls (store w) @ [UpdateStatus serviceId newStatus now],
                              services_tbl := map (set_status serviceId newStatus now)
                                                  (services_tbl (store w))\<rparr>\<rparr>)"
  by (simp add: handleStatusChange_def update_status_def request_ok reliableD [OF assms]
      set_status_def [abs_def])

text \<open>
  C9, as amended. On a reliable store \<open>handleStatusChange\<close> writes the new status and the
  time stamp \<open>now\<close> that the browser put into the request, to the request with that id,
  whatever its current status, then re-fetches: the page shows the stored requests. The
  time stamp is the client's, not the store's.
\<close>

theorem C9_update_status:
  "reliable (store w) \<longrightarrow>
     services_tbl (store (handleStatusChange serviceId newStatus now w)) =
       map (\<lambda>s. if s_id s = serviceId then s\<lparr>status := newStatus, updated_at := now\<rparr> else s)
           (services_tbl (store w))
     \<and> prefix (calls (store w) @ [UpdateStatus serviceId newStatus now, SelectServices])
          (calls (store (handleStatusChange serviceId newStatus now w)))
     \<and> map HostelService.truncate (hs_services (ui (handleStatusChange serviceId newStatus now w))) =
         order_desc s_created_at (services_tbl (store (handleStatusChange serviceId newStatus now w)))"
proof
  assume r: "reliable (store w)"
  let ?d = "(store w)\<lparr>calls := calls (store w) @ [UpdateStatus serviceId newStatus now],
                        services_tbl := map (set_status serviceId newStatus now)
                                            (services_tbl (store w))\<rparr>"
  have h: "handleStatusChange serviceId newStatus now w = fetchAllServices (w\<lparr>store := ?d\<rparr>)"
    by (rule handleStatusChange_reliable [OF r])
  have r': "reliable (store (w\<lparr>store := ?d\<rparr>))" using r by (simp add: reliable_def)
  have s: "store (handleStatusChange serviceId newStatus now w) =
      ?d\<lparr>calls := calls ?d @ services_calls ?d\<rparr>"
    using fetchAllServices_reliable(1) [OF r'] by (simp add: h)
  have v: "hs_services (ui (handleStatusChange serviceId newStatus now w)) = services_view ?d"
    using fetchAllServices_reliable(2) [OF r'] by (simp add: h)
  show "services_tbl (store (handleStatusChange serviceId newStatus now w)) =
       map (\<lambda>s. if s_id s = serviceId then s\<lparr>status := newStatus, updated_at := now\<rparr> else s)
           (services_tbl (store w))
     \<and> prefix (calls (store w) @ [UpdateStatus serviceId newStatus now, SelectServices])
          (calls (store (handleStatusChange serviceId newStatus now w)))
     \<and> map HostelService.truncate (hs_services (ui (handleStatusChange serviceId newStatus now w))) =
         order_desc s_created_at (services_tbl (store (handleStatusChange serviceId newStatus now w)))"
    by (simp add: s v services_view_truncate services_calls_def set_status_def [abs_def])
qed

theorem C9_update_status_witness:
  "reliable (store hostel0)
   \<and> map status (services_tbl (store hostel0)) = [''Completed'']
   \<and> map (\<lambda>s. (s_id s, status s, updated_at s))
         (services_tbl (store (handleStatusChange ''s1'' ''Pending'' 5 hostel0))) =
       [(''s1'', ''Pending'', 5)]
   \<and> map status (hs_services (ui (handleStatusChange ''s1'' ''Pending'' 5 hostel0))) = [''Pending'']"
proof -
  have r: "reliable (store hostel0)" by (simp add: reliable_def hostel0_def store0_def)
  have b: "map status (services_tbl (store hostel0)) = [''Completed'']" by code_simp
  have m: "map (\<lambda>s. (s_id s, status s, updated_at s))
         (map (\<lambda>s. if s_id s = ''s1'' then s\<lparr>status := ''Pending'', updated_at := 5\<rparr> else s)
           (services_tbl (store hostel0))) = [(''s1'', ''Pending'', 5)]"
    by code_simp
  have v: "map status (hs_services (ui (handleStatusChange ''s1'' ''Pending'' 5 hostel0))) = [''Pending'']"
    by code_simp
  from C9_update_status [of hostel0 "''s1''" "''Pending''" 5] r
  have "services_tbl (store (handleStatusChange ''s1'' ''Pending'' 5 hostel0)) =
       map (\<lambda>s. if s_id s = ''s1'' then s\<lparr>status := ''Pending'', updated_at := 5\<rparr> else s)
           (services_tbl (store hostel0))"
    by blast
  with r b m v show ?thesis by simp
qed

text \<open>
  The stored time stamp is the one of the request (5, the browser's clock) while the
  store's own clock reads 9.
\<close>

theorem C9_client_timestamp_counterexample:
  "map updated_at (services_tbl (store (handleStatusChange ''s1'' ''Pending'' 5 hostel0))) = [5]
   \<and> calls (store (handleStatusChange ''s1'' ''Pending'' 5 hostel0)) =
       [UpdateStatus ''s1'' ''Pending'' 5, SelectServices, SelectProfilesBriefIn [''u1'']]
   \<and> server_clock (store (handleStatusChange ''s1'' ''Pending'' 5 hostel0)) = 9"
  by code_simp

lemma fetch_calls_no_media_write [simp]: "filter is_media_write (fetch_calls k user d) = []"
  by (cases user) (simp_all add: fetch_calls_def)

lemma trySubmit_reliable:
  assumes "reliable (store w)" and "public_url (store w) (filePathOf u now file) \<noteq> []"
  shows "trySubmit u file now w =
    (None, setShowUploadModal False
       (fetchTalents (Some u)
          (w\<lparr>store := snd (insert_talent
               (newTalentOf u (formData (modal (ui w)))
                  (public_url (store w) (filePathOf u now file)) (mediaTypeOf file))
               (snd (storage_upload (filePathOf u now file) file (store w))))\<rparr>)))"
  using assms(2)
  by (simp add: trySubmit_def storage_upload_def insert_talent_def request_ok
      reliableD [OF assms(1)] Let_def)

lemma submit_store_calls:
  assumes "reliable d"
  shows "calls (snd (insert_talent row (snd (storage_upload path file d)))) =
           calls d @ [StorageUpload path file, InsertTalent row]"
    and "reliable (snd (insert_talent row (snd (storage_upload path file d))))"
  using assms
  by (simp_all add: storage_upload_def insert_talent_def request_ok reliableD [OF assms] reliable_def)

text \<open>
  C8, as amended. A selected file above the ceiling is refused by \<open>handleFileChange\<close> with
  the size message: no request is sent and the file to submit is not replaced; a file
  within the ceiling becomes the file to submit. When a user is signed in, a file is
  selected, the store is reliable and the public URL is not empty, \<open>handleSubmit\<close> sends
  exactly one upload and one insert, and the inserted \<open>media_type\<close> is \<open>video\<close> when
  the file's type starts with \<open>video\<close> and \<open>image\<close> otherwise.
\<close>

theorem C8_upload:
  "(f_size file > max_file_size \<longrightarrow>
      handleFileChange (Some (file # rest)) w =
        setFileError ''File is too large. Please select a file smaller than 10MB.'' w
      \<and> store (handleFileChange (Some (file # rest)) w) = store w
      \<and> mediaFile (modal (ui (handleFileChange (Some (file # rest)) w))) = mediaFile (modal (ui w)))
   \<and> (f_size file \<le> max_file_size \<longrightarrow>
        mediaFile (modal (ui (handleFileChange (Some (file # rest)) w))) = Some file
        \<and> store (handleFileChange (Some (file # rest)) w) = store w)
   \<and> (mediaFile (modal (ui w)) = Some file \<and> reliable (store w)
        \<and> public_url (store w) (filePathOf u now file) \<noteq> [] \<longrightarrow>
        filter is_media_write (calls (store (handleSubmit (Some u) now w))) =
          filter is_media_write (calls (store w)) @
          [StorageUpload (filePathOf u now file) file,
           InsertTalent (newTalentOf u (formData (modal (ui w)))
              (public_url (store w) (filePathOf u now file))
              (if startsWith (f_type file) ''video'' then ''video'' else ''image''))])"
proof (intro conjI impI)
  assume "f_size file > max_file_size"
  then show "handleFileChange (Some (file # rest)) w =
        setFileError ''File is too large. Please select a file smaller than 10MB.'' w"
    and "store (handleFileChange (Some (file # rest)) w) = store w"
    and "mediaFile (modal (ui (handleFileChange (Some (file # rest)) w))) = mediaFile (modal (ui w))"
    by (simp_all add: handleFileChange_def setFileError_def)
next
  assume "f_size file \<le> max_file_size"
  then show "mediaFile (modal (ui (handleFileChange (Some (file # rest)) w))) = Some file"
    and "store (handleFileChange (Some (file # rest)) w) = store w"
    by (simp_all add: handleFileChange_def setFileError_def setMediaFile_def)
next
  assume a: "mediaFile (modal (ui w)) = Some file \<and> reliable (store w)
        \<and> public_url (store w) (filePathOf u now file) \<noteq> []"
  define w0 where "w0 = setFileError [] (setUploading True w)"
  have s0: "store w0 = store w" and f0: "formData (modal (ui w0)) = formData (modal (ui w))"
    by (simp_all add: w0_def setFileError_def setUploading_def)
  have r0: "reliable (store w0)" and p0: "public_url (store w0) (filePathOf u now file) \<noteq> []"
    using a by (simp_all add: s0)
  define d2 where "d2 = snd (insert_talent
               (newTalentOf u (formData (modal (ui w)))
                  (public_url (store w) (filePathOf u now file)) (mediaTypeOf file))
               (snd (storage_upload (filePathOf u now file) file (store w))))"
  have t: "trySubmit u file now w0 =
      (None, setShowUploadModal False (fetchTalents (Some u) (w0\<lparr>store := d2\<rparr>)))"
    using trySubmit_reliable [OF r0 p0] by (simp add: s0 f0 d2_def)
  have r2: "reliable (store (w0\<lparr>store := d2\<rparr>))"
    using a by (simp add: d2_def submit_store_calls(2))
  have c2: "calls d2 = calls (store w) @
      [StorageUpload (filePathOf u now file) file,
       InsertTalent (newTalentOf u (formData (modal (ui w)))
          (public_url (store w) (filePathOf u now file)) (mediaTypeOf file))]"
    using a by (simp add: d2_def submit_store_calls(1))
  have h: "handleSubmit (Some u) now w =
      setUploading False (setShowUploadModal False (fetchTalents (Some u) (w0\<lparr>store := d2\<rparr>)))"
    using a by (simp add: handleSubmit_def w0_def [symmetric] t)
  have "calls (store (handleSubmit (Some u) now w)) =
      calls d2 @ fetch_calls (sortBy (ui w0)) (Some u) d2"
    using fetchTalents_reliable_sel(3) [OF r2, of "Some u"]
    by (simp add: h setUploading_def setShowUploadModal_def)
  then show "filter is_media_write (calls (store (handleSubmit (Some u) now w))) =
          filter is_media_write (calls (store w)) @
          [StorageUpload (filePathOf u now file) file,
           InsertTalent (newTalentOf u (formData (modal (ui w)))
              (public_url (store w) (filePathOf u now file))
              (if startsWith (f_type file) ''video'' then ''video'' else ''image''))]"
    by (simp add: c2 mediaTypeOf_def)
qed

theorem C8_upload_witness:
  "f_size huge > max_file_size
   \<and> fileError (modal (ui (handleFileChange (Some [huge]) showcase0))) =
       ''File is too large. Please select a file smaller than 10MB.''
   \<and> calls (store (handleFileChange (Some [huge]) showcase0)) = []
   \<and> f_size clip \<le> max_file_size
   \<and> mediaFile (modal (ui (handleFileChange (Some [clip]) showcase0))) = Some clip
   \<and> reliable (store (handleFileChange (Some [clip]) showcase0))
   \<and> filter is_media_write
        (calls (store (handleSubmit (Some ann) 1700 (handleFileChange (Some [clip]) showcase0)))) =
       [StorageUpload ''u1-1700.mp4'' clip,
        InsertTalent \<lparr>nt_user_id = ''u1'', nt_title = ''Solo'', nt_description = ''Take 2'',
          nt_category = ''Music'', nt_media_url = ''https://cdn/u1-1700.mp4'',
          nt_media_type = ''video'', nt_tags = [''guitar'', ''live'']\<rparr>]"
proof -
  let ?w = "handleFileChange (Some [clip]) showcase0"
  let ?w' = "setMediaFile clip (setFileError [] showcase0)"
  have big: "f_size huge > max_file_size" by (simp add: huge_def max_file_size_def)
  have small: "f_size clip \<le> max_file_size" by (simp add: clip_def max_file_size_def)
  have w: "?w = ?w'" using small by (simp add: handleFileChange_def)
  have m: "mediaFile (modal (ui ?w)) = Some clip"
    and st: "store ?w = store showcase0"
    using C8_upload [of clip "[]" showcase0] small by blast+
  have r0: "reliable (store showcase0)" by (simp add: reliable_def showcase0_def store0_def)
  have r: "reliable (store ?w)" by (simp add: st r0)
  have "public_url (store showcase0) (filePathOf ann 1700 clip) \<noteq> []"
    by (simp add: showcase0_def store0_def)
  then have p: "public_url (store ?w) (filePathOf ann 1700 clip) \<noteq> []" by (simp add: st)
  have rej: "handleFileChange (Some [huge]) showcase0 =
        setFileError ''File is too large. Please select a file smaller than 10MB.'' showcase0"
    and same: "store (handleFileChange (Some [huge]) showcase0) = store showcase0"
    using C8_upload [of huge "[]" showcase0] big by blast+
  have e: "fileError (modal (ui (handleFileChange (Some [huge]) showcase0))) =
       ''File is too large. Please select a file smaller than 10MB.''"
    by (simp add: rej setFileError_def)
  have c0: "calls (store showcase0) = []" by (simp add: showcase0_def store0_def)
  have c: "calls (store (handleFileChange (Some [huge]) showcase0)) = []"
    by (simp add: same c0)
  have v: "filter is_media_write (calls (store ?w')) @
          [StorageUpload (filePathOf ann 1700 clip) clip,
           InsertTalent (newTalentOf ann (formData (modal (ui ?w')))
              (public_url (store ?w') (filePathOf ann 1700 clip))
              (if startsWith (f_type clip) ''video'' then ''video'' else ''image''))] =
       [StorageUpload ''u1-1700.mp4'' clip,
        InsertTalent \<lparr>nt_user_id = ''u1'', nt_title = ''Solo'', nt_description = ''Take 2'',
          nt_category = ''Music'', nt_media_url = ''https://cdn/u1-1700.mp4'',
          nt_media_type = ''video'', nt_tags = [''guitar'', ''live'']\<rparr>]"
    by code_simp
  have s: "filter is_media_write (calls (store (handleSubmit (Some ann) 1700 ?w))) =
          filter is_media_write (calls (store ?w)) @
          [StorageUpload (filePathOf ann 1700 clip) clip,
           InsertTalent (newTalentOf ann (formData (modal (ui ?w)))
              (public_url (store ?w) (filePathOf ann 1700 clip))
              (if startsWith (f_type clip) ''video'' then ''video'' else ''image''))]"
    using C8_upload [of clip "[]" ?w ann 1700] m r p by blast
  have "filter is_media_write (calls (store (handleSubmit (Some ann) 1700 ?w))) =
       [StorageUpload ''u1-1700.mp4'' clip,
        InsertTalent \<lparr>nt_user_id = ''u1'', nt_title = ''Solo'', nt_description = ''Take 2'',
          nt_category = ''Music'', nt_media_url = ''https://cdn/u1-1700.mp4'',
          nt_media_type = ''video'', nt_tags = [''guitar'', ''live'']\<rparr>]"
    using s v unfolding w by (rule trans)
  with big e c small m r show ?thesis by blast
qed

text \<open>
  A type that starts with \<open>video\<close> without being of the form \<open>video/...\<close> is stored
  as \<open>video\<close>.
\<close>

theorem C8_media_type_counterexample:
  "\<not> startsWith (f_type tape) ''video/''
   \<and> f_size tape \<le> max_file_size
   \<and> map nt_media_type
        (List.map_filter inserted_row
           (calls (store (handleSubmit (Some ann) 1700 (handleFileChange (Some [tape]) showcase0))))) =
       [''video'']"
proof -
  have s: "f_size tape \<le> max_file_size" by (simp add: tape_def max_file_size_def)
  have w: "handleFileChange (Some [tape]) showcase0 = setMediaFile tape (setFileError [] showcase0)"
    using s by (simp add: handleFileChange_def)
  have n: "\<not> startsWith (f_type tape) ''video/''" by code_simp
  have v: "map nt_media_type
        (List.map_filter inserted_row
           (calls (store (handleSubmit (Some ann) 1700
              (setMediaFile tape (setFileError [] showcase0)))))) = [''video'']"
    by code_simp
  from n s v show ?thesis unfolding w by blast
qed

text \<open>
  The sibling handlers test the \<^verbatim>\<open>error\<close> of the write: a refused status update is
  reported and no re-fetch follows. \<open>handleLike\<close> drops the answer: a refused insert is
  followed by the re-fetch as if it had succeeded.
\<close>

lemma handleStatusChange_failed:
  assumes "faults (store w) (UpdateStatus serviceId newStatus now) = Failed e"
  shows "handleStatusChange serviceId newStatus now w =
     alert ''Failed to update status.''
       (console_error ''Error updating status:'' e
          (w\<lparr>store := (store w)\<lparr>calls := calls (store w) @
                                  [UpdateStatus serviceId newStatus now]\<rparr>\<rparr>))"
  using assms by (simp add: handleStatusChange_def update_status_def request_def Let_def)

lemma handleLike_failed:
  assumes "find (\<lambda>v. t_id v = tid) (talents (ui w)) = Some t" and "\<not> is_liked t"
    and "faults (store w) (InsertLike tid (u_id u)) = Failed e"
  shows "handleLike (Some u) tid w =
     fetchTalents (Some u)
       (w\<lparr>store := (store w)\<lparr>calls := calls (store w) @ [InsertLike tid (u_id u)]\<rparr>\<rparr>)"
  using assms by (simp add: handleLike_def insert_like_def request_def Let_def)

text \<open>
  C2 (the code departs from the claim). The viewer likes an item that is not liked and the
  store refuses the insert: \<open>handleLike\<close> raises no alert and logs nothing, the reaction
  records are as before, and the requests of a full re-fetch follow the refused write.
\<close>

theorem C2_like_failure_unreported:
  "map is_liked (talents (ui (fetchTalents (Some ann) flaky0))) = [False, True]
   \<and> faults (store (fetchTalents (Some ann) flaky0)) (InsertLike ''t2'' ''u1'') =
       Failed ''permission denied''
   \<and> alerts (handleLike (Some ann) ''t2'' (fetchTalents (Some ann) flaky0)) = []
   \<and> console (handleLike (Some ann) ''t2'' (fetchTalents (Some ann) flaky0)) = []
   \<and> likes_tbl (store (handleLike (Some ann) ''t2'' (fetchTalents (Some ann) flaky0))) =
       [(''t1'', ''u1'')]
   \<and> calls (store (handleLike (Some ann) ''t2'' (fetchTalents (Some ann) flaky0))) =
       calls (store (fetchTalents (Some ann) flaky0)) @
       [InsertLike ''t2'' ''u1'', SelectTalents By_created_at,
        SelectProfilesIn [''u9'', ''u1''], SelectLikes ''u1'']"
  by code_simp

text \<open>
  The scenario of the search: the query \<open>GUITAR\<close> keeps the item tagged \<open>guitar\<close> and
  drops the untagged one, the query \<open>caf\<close> followed by 0xE9 keeps the item whose title
  has the capital letter 0xC9, and the empty query keeps both.
\<close>

theorem C7_filter_substring_witness:
  "sample_lower [] = []
   \<and> filteredTalents sample_lower ''GUITAR'' (view_of By_created_at None store0) =
       [Talent.extend talent1 (TalentWithProfile.fields (Some profile1) False)]
   \<and> filteredTalents sample_lower (''caf'' @ [CHR 0xE9]) (view_of By_created_at None store0) =
       [Talent.extend talent2 (TalentWithProfile.fields None False)]
   \<and> filteredTalents sample_lower [] (view_of By_created_at None store0) =
       view_of By_created_at None store0"
proof -
  have e: "sample_lower [] = []" by (simp add: sample_lower_def)
  have g: "filteredTalents sample_lower ''GUITAR'' (view_of By_created_at None store0) =
       [Talent.extend talent1 (TalentWithProfile.fields (Some profile1) False)]"
    by code_simp
  have c: "filteredTalents sample_lower (''caf'' @ [CHR 0xE9]) (view_of By_created_at None store0) =
       [Talent.extend talent2 (TalentWithProfile.fields None False)]"
    by code_simp
  from C7_filter_substring [of sample_lower "[]" "view_of By_created_at None store0"] e
  have "filteredTalents sample_lower [] (view_of By_created_at None store0) =
       view_of By_created_at None store0"
    by blast
  with e g c show ?thesis by blast
qed

end
